theory Spec2Isabelle
  imports Complex_Main "HOL-Library.AList"
begin

section \<open>The spreadsheet core of Numbers\<close>

text \<open>
  A shallow embedding of the spreadsheet application (\<^verbatim>\<open>src/unnamed/part_000\<close>): the
  address codec, the cell store, the formula evaluator, the range aggregator, the
  recalculation pass, the value formatter, the grid-size buttons and the snapshot loaders.

  Conventions of the embedding.
  \<^item> Row and column indices are \<^typ>\<open>int\<close>: the program computes with them as integers
    (\<^verbatim>\<open>col % 26\<close>, \<^verbatim>\<open>Math.floor(col / 26) - 1\<close>, \<^verbatim>\<open>parseInt(..) - 1\<close>), and a row index
    can be \<open>-1\<close> (the label \<^verbatim>\<open>A0\<close>).
  \<^item> Strings are lists of characters; the letters and digits the program tests for are
    the ASCII ones (\<^verbatim>\<open>[A-Z]\<close>, \<^verbatim>\<open>\d\<close>), and \<^verbatim>\<open>toUpperCase\<close> is modelled on
    ASCII letters.
  \<^item> Numbers are exact rationals together with \<open>Infinity\<close>, \<open>-Infinity\<close> and
    \<open>NaN\<close>; the rounding of doubles and the sign of zero are not modelled.
  \<^item> What only the JavaScript host can compute (running the code built by
    \<^verbatim>\<open>Function\<close>, locale formatting, the digits of a fraction) is a parameter
    \<open>H\<close> of the functions that need it. General statements hold for every host;
    worked examples run on \<open>exampleHost\<close>, which evaluates arithmetic expressions.
  \<^item> The DOM updates and the writes to localStorage do not change the program's
    \<^verbatim>\<open>state\<close> object and are left out.
\<close>

subsection \<open>Configuration and data model\<close>

record config =
  defaultRows :: int
  defaultCols :: int
  maxRows :: int
  maxCols :: int

definition CONFIG :: config where
  "CONFIG = \<lparr>defaultRows = 50, defaultCols = 26, maxRows = 1000, maxCols = 52\<rparr>"

text \<open>
  A JavaScript number: a finite value, the two infinities, or NaN. Finite values are exact
  rationals: the rounding of IEEE doubles and the sign of zero are not modelled.
\<close>

datatype jsnum = NaN | Infinity | NegInfinity | Finite rat

text \<open>What a cell's \<^verbatim>\<open>value\<close> and \<^verbatim>\<open>displayValue\<close> hold: a number or a string.\<close>

datatype jsval = Num jsnum | Str string

text \<open>
  A cell record \<^verbatim>\<open>{value, formula, format, displayValue}\<close>. The field \<^verbatim>\<open>value\<close> is
  named \<open>val\<close> here. \<open>format\<close> is \<open>None\<close> for \<^verbatim>\<open>{}\<close> and \<open>Some t\<close> for
  \<^verbatim>\<open>{type: t}\<close>; \<open>displayValue\<close> is \<open>None\<close> while the property is absent.
\<close>

record cell =
  val :: jsval
  formula :: string
  format :: "string option"
  displayValue :: "jsval option"

text \<open>
  \<^verbatim>\<open>state.data\<close>: an object keyed by cell label. \<^verbatim>\<open>Object.keys\<close> lists the keys in
  insertion order (cell labels are never array indices), so the store is an association
  list with distinct keys: \<open>map_of\<close> reads, \<open>AList.update\<close> writes in place or
  appends, \<open>AList.delete\<close> removes.
\<close>

type_synonym store = "(string \<times> cell) list"

record state =
  rows :: int
  cols :: int
  data :: store
  selectedCell :: "string option"
  isEditing :: bool
  currentFilePath :: "string option"

definition initialState :: state where
  "initialState =
     \<lparr>rows = defaultRows CONFIG, cols = defaultCols CONFIG, data = [],
      selectedCell = None, isEditing = False, currentFilePath = None\<rparr>"

subsection \<open>Address codec\<close>

definition isUpper :: "char \<Rightarrow> bool" where
  "isUpper ch = (65 \<le> (of_char ch :: nat) \<and> (of_char ch :: nat) \<le> 90)"

definition isDigit :: "char \<Rightarrow> bool" where
  "isDigit ch = (48 \<le> (of_char ch :: nat) \<and> (of_char ch :: nat) \<le> 57)"

text \<open>The \<^verbatim>\<open>while (col >= 0)\<close> loop of \<^verbatim>\<open>colToLetter\<close>, with its two variables.\<close>

function colToLetterLoop :: "int \<Rightarrow> string \<Rightarrow> string" where
  "colToLetterLoop c letter =
     (if c \<ge> 0
      then colToLetterLoop (c div 26 - 1) (char_of (65 + c mod 26) # letter)
      else letter)"
  by pat_completeness auto
termination
  by (relation "measure (\<lambda>(c, letter). nat (c + 1))") auto

definition colToLetter :: "int \<Rightarrow> string" where
  "colToLetter c = colToLetterLoop c []"

definition letterToCol :: "string \<Rightarrow> int" where
  "letterToCol letter = foldl (\<lambda>c ch. c * 26 + (of_char ch - 64)) 0 letter - 1"

text \<open>The decimal digits of an integer, as string concatenation with a number gives them.\<close>

fun natToString :: "nat \<Rightarrow> string" where
  "natToString n =
     (if n < 10 then [char_of (48 + n)]
      else natToString (n div 10) @ [char_of (48 + n mod 10)])"

definition intToString :: "int \<Rightarrow> string" where
  "intToString i =
     (if i < 0 then CHR ''-'' # natToString (nat (- i)) else natToString (nat i))"

text \<open>\<^verbatim>\<open>parseInt\<close> on a string of decimal digits (what \<^verbatim>\<open>(\d+)\<close> captured).\<close>

definition parseInt :: "string \<Rightarrow> int" where
  "parseInt ds = foldl (\<lambda>n ch. n * 10 + (of_char ch - 48)) 0 ds"

record pos =
  col :: int
  row :: int

definition getCellId :: "int \<Rightarrow> int \<Rightarrow> string" where
  "getCellId r c = colToLetter c @ intToString (r + 1)"

text \<open>
  \<^verbatim>\<open>cellId.match(/^([A-Z]+)(\d+)$/)\<close>: the two character classes are disjoint, so the
  only possible split is the longest run of capitals followed by the rest, which must be
  all digits; both groups are non-empty.
\<close>

definition parseCellId :: "string \<Rightarrow> pos option" where
  "parseCellId cellId =
     (let letters = takeWhile isUpper cellId;
          digits = dropWhile isUpper cellId
      in if letters \<noteq> [] \<and> digits \<noteq> [] \<and> list_all isDigit digits
         then Some \<lparr>col = letterToCol letters, row = parseInt digits - 1\<rparr>
         else None)"

subsection \<open>Toolbar: adding and deleting rows and columns\<close>

definition addRowBtn :: "state \<Rightarrow> state" where
  "addRowBtn s = s\<lparr>rows := min (rows s + 1) (maxRows CONFIG)\<rparr>"

definition addColBtn :: "state \<Rightarrow> state" where
  "addColBtn s = s\<lparr>cols := min (cols s + 1) (maxCols CONFIG)\<rparr>"

definition deleteRowBtn :: "state \<Rightarrow> state" where
  "deleteRowBtn s = (if rows s > 1 then s\<lparr>rows := rows s - 1\<rparr> else s)"

definition deleteColBtn :: "state \<Rightarrow> state" where
  "deleteColBtn s = (if cols s > 1 then s\<lparr>cols := cols s - 1\<rparr> else s)"

datatype button = AddRow | AddCol | DeleteRow | DeleteCol

fun click :: "state \<Rightarrow> button \<Rightarrow> state" where
  "click s AddRow = addRowBtn s"
| "click s AddCol = addColBtn s"
| "click s DeleteRow = deleteRowBtn s"
| "click s DeleteCol = deleteColBtn s"

definition clicks :: "state \<Rightarrow> button list \<Rightarrow> state" where
  "clicks s bs = foldl click s bs"

definition dimsOk :: "state \<Rightarrow> bool" where
  "dimsOk s = (1 \<le> rows s \<and> rows s \<le> maxRows CONFIG \<and> 1 \<le> cols s \<and> cols s \<le> maxCols CONFIG)"

subsection \<open>Numbers\<close>

definition isNaN :: "jsnum \<Rightarrow> bool" where
  "isNaN n = (n = NaN)"

fun jsNeg :: "jsnum \<Rightarrow> jsnum" where
  "jsNeg NaN = NaN"
| "jsNeg Infinity = NegInfinity"
| "jsNeg NegInfinity = Infinity"
| "jsNeg (Finite a) = Finite (- a)"

fun jsAdd :: "jsnum \<Rightarrow> jsnum \<Rightarrow> jsnum" where
  "jsAdd NaN b = NaN"
| "jsAdd a NaN = NaN"
| "jsAdd Infinity NegInfinity = NaN"
| "jsAdd NegInfinity Infinity = NaN"
| "jsAdd Infinity b = Infinity"
| "jsAdd NegInfinity b = NegInfinity"
| "jsAdd (Finite a) Infinity = Infinity"
| "jsAdd (Finite a) NegInfinity = NegInfinity"
| "jsAdd (Finite a) (Finite b) = Finite (a + b)"

definition jsSub :: "jsnum \<Rightarrow> jsnum \<Rightarrow> jsnum" where
  "jsSub a b = jsAdd a (jsNeg b)"

text \<open>The sign of a number that is not NaN: \<open>-1\<close>, \<open>0\<close> or \<open>1\<close>.\<close>

fun jsSign :: "jsnum \<Rightarrow> int" where
  "jsSign NaN = 0"
| "jsSign Infinity = 1"
| "jsSign NegInfinity = - 1"
| "jsSign (Finite a) = (if a < 0 then - 1 else if a = 0 then 0 else 1)"

definition signedInfinity :: "int \<Rightarrow> jsnum" where
  "signedInfinity sg = (if sg < 0 then NegInfinity else Infinity)"

fun jsMul :: "jsnum \<Rightarrow> jsnum \<Rightarrow> jsnum" where
  "jsMul NaN b = NaN"
| "jsMul a NaN = NaN"
| "jsMul (Finite a) (Finite b) = Finite (a * b)"
| "jsMul a b = (if jsSign a * jsSign b = 0 then NaN else signedInfinity (jsSign a * jsSign b))"

fun jsDiv :: "jsnum \<Rightarrow> jsnum \<Rightarrow> jsnum" where
  "jsDiv NaN b = NaN"
| "jsDiv a NaN = NaN"
| "jsDiv (Finite a) (Finite b) =
     (if b = 0 then (if a = 0 then NaN else signedInfinity (jsSign (Finite a)))
      else Finite (a / b))"
| "jsDiv (Finite a) b = Finite 0"
| "jsDiv a (Finite b) = signedInfinity (if b < 0 then - jsSign a else jsSign a)"
| "jsDiv a b = NaN"

text \<open>The order of the numbers that are not NaN.\<close>

fun jsLe :: "jsnum \<Rightarrow> jsnum \<Rightarrow> bool" where
  "jsLe NaN b = False"
| "jsLe a NaN = False"
| "jsLe NegInfinity b = True"
| "jsLe a Infinity = True"
| "jsLe (Finite a) (Finite b) = (a \<le> b)"
| "jsLe a b = False"

definition jsMin2 :: "jsnum \<Rightarrow> jsnum \<Rightarrow> jsnum" where
  "jsMin2 a b = (if isNaN a \<or> isNaN b then NaN else if jsLe b a then b else a)"

definition jsMax2 :: "jsnum \<Rightarrow> jsnum \<Rightarrow> jsnum" where
  "jsMax2 a b = (if isNaN a \<or> isNaN b then NaN else if jsLe a b then b else a)"

text \<open>
  \<^verbatim>\<open>Math.min(...values)\<close> and \<^verbatim>\<open>Math.max(...values)\<close> (the host's limit on the
  number of arguments of a call is not modelled).
\<close>

definition mathMin :: "jsnum list \<Rightarrow> jsnum" where
  "mathMin vs = foldl jsMin2 Infinity vs"

definition mathMax :: "jsnum list \<Rightarrow> jsnum" where
  "mathMax vs = foldl jsMax2 NegInfinity vs"

subsection \<open>Strings and numbers\<close>

definition toUpperChar :: "char \<Rightarrow> char" where
  "toUpperChar ch =
     (if 97 \<le> (of_char ch :: nat) \<and> (of_char ch :: nat) \<le> 122
      then char_of ((of_char ch :: nat) - 32) else ch)"

definition toUpperCase :: "string \<Rightarrow> string" where
  "toUpperCase s = map toUpperChar s"

definition startsWith :: "string \<Rightarrow> string \<Rightarrow> bool" where
  "startsWith s p = (take (length p) s = p)"

definition isWhiteSpace :: "char \<Rightarrow> bool" where
  "isWhiteSpace ch = ((of_char ch :: nat) \<in> {9, 10, 11, 12, 13, 32})"

text \<open>Scaling by a power of ten, for fraction digits and exponents.\<close>

definition scale10 :: "rat \<Rightarrow> int \<Rightarrow> rat" where
  "scale10 m e = (if e \<ge> 0 then m * 10 ^ nat e else m / 10 ^ nat (- e))"

text \<open>An optional sign: the factor and the rest of the string.\<close>

fun readSign :: "string \<Rightarrow> int \<times> string" where
  "readSign [] = (1, [])"
| "readSign (ch # cs) =
     (if ch = CHR ''-'' then (- 1, cs) else if ch = CHR ''+'' then (1, cs) else (1, ch # cs))"

text \<open>
  An exponent part \<^verbatim>\<open>e\<close>, optional sign, digits at the start of the string: its value
  and the number of characters it takes; \<open>(0, 0)\<close> when there is none.
\<close>

fun readExponent :: "string \<Rightarrow> int \<times> nat" where
  "readExponent [] = (0, 0)"
| "readExponent (ch # cs) =
     (if ch = CHR ''e'' \<or> ch = CHR ''E''
      then (let (sg, r) = readSign cs; ds = takeWhile isDigit r
            in if ds = [] then (0, 0)
               else (sg * parseInt ds, 1 + (length cs - length r) + length ds))
      else (0, 0))"

text \<open>
  An unsigned decimal literal at the start of the string (digits, optional fraction,
  optional exponent; or a fraction starting with the point): its value and its length.
\<close>

definition readDecimal :: "string \<Rightarrow> (rat \<times> nat) option" where
  "readDecimal s =
     (let ip = takeWhile isDigit s;
          r1 = dropWhile isDigit s;
          hasPoint = (r1 \<noteq> [] \<and> hd r1 = CHR ''.'');
          fp = (if hasPoint then takeWhile isDigit (tl r1) else []);
          r2 = (if hasPoint then dropWhile isDigit (tl r1) else r1)
      in if ip = [] \<and> fp = [] then None
         else let mant = of_int (parseInt ip) + scale10 (of_int (parseInt fp)) (- int (length fp));
                  (e, elen) = readExponent r2
              in Some (scale10 mant e, length s - length r2 + elen))"

text \<open>
  \<^verbatim>\<open>parseFloat\<close> of a string: leading white space is skipped, then the longest prefix
  that is a signed decimal literal or \<^verbatim>\<open>Infinity\<close> is read; NaN when there is none.
\<close>

definition parseFloatString :: "string \<Rightarrow> jsnum" where
  "parseFloatString s =
     (let (sg, r) = readSign (dropWhile isWhiteSpace s)
      in if startsWith r ''Infinity'' then signedInfinity sg
         else case readDecimal r of
                None \<Rightarrow> NaN
              | Some (q, n) \<Rightarrow> Finite (of_int sg * q))"

text \<open>
  \<^verbatim>\<open>parseFloat\<close> of a cell value. A number is first converted to a string and read
  back, which returns the number.
\<close>

fun parseFloat :: "jsval \<Rightarrow> jsnum" where
  "parseFloat (Num n) = n"
| "parseFloat (Str s) = parseFloatString s"

subsection \<open>The JavaScript host\<close>

text \<open>
  What the program asks of its host and cannot be computed here in full is a parameter:
  \<^item> \<open>runFunction body\<close> is \<^verbatim>\<open>Function(body)()\<close>: the number the function returns,
    or \<open>None\<close> when compiling or running it throws;
  \<^item> \<open>fractionToString q\<close> is the string of a finite number that is not an integer
    below \<open>10\<^sup>2\<^sup>1\<close> (the shortest digits that read back as the same double);
  \<^item> \<open>toLocaleNumber\<close> and \<open>toLocaleCurrency\<close> are the two
    \<^verbatim>\<open>toLocaleString('sv-SE', ...)\<close> calls of \<^verbatim>\<open>formatValue\<close>.
\<close>

record host =
  runFunction :: "string \<Rightarrow> jsnum option"
  fractionToString :: "rat \<Rightarrow> string"
  toLocaleNumber :: "jsnum \<Rightarrow> string"
  toLocaleCurrency :: "jsnum \<Rightarrow> string"

definition isInteger :: "rat \<Rightarrow> bool" where
  "isInteger q = (q = of_int \<lfloor>q\<rfloor>)"

text \<open>The string of a number, as a \<^verbatim>\<open>replace\<close> callback's result is converted.\<close>

fun numberToString :: "host \<Rightarrow> jsnum \<Rightarrow> string" where
  "numberToString H NaN = ''NaN''"
| "numberToString H Infinity = ''Infinity''"
| "numberToString H NegInfinity = ''-Infinity''"
| "numberToString H (Finite q) =
     (if isInteger q \<and> \<bar>q\<bar> < 10 ^ 21 then intToString \<lfloor>q\<rfloor> else fractionToString H q)"

subsection \<open>Range aggregator\<close>

text \<open>The body of the inner loop of \<^verbatim>\<open>getRangeValues\<close>.\<close>

definition pushNumeric :: "store \<Rightarrow> string \<Rightarrow> jsnum list \<Rightarrow> jsnum list" where
  "pushNumeric d cellId values =
     (case map_of d cellId of
        None \<Rightarrow> values
      | Some cellData \<Rightarrow>
          if \<not> isNaN (parseFloat (val cellData)) then values @ [parseFloat (val cellData)]
          else values)"

function colLoop :: "store \<Rightarrow> int \<Rightarrow> int \<Rightarrow> int \<Rightarrow> jsnum list \<Rightarrow> jsnum list" where
  "colLoop d r c cmax values =
     (if c \<le> cmax then colLoop d r (c + 1) cmax (pushNumeric d (getCellId r c) values)
      else values)"
  by pat_completeness auto
termination
  by (relation "measure (\<lambda>(d, r, c, cmax, values). nat (cmax + 1 - c))") auto

function rowLoop :: "store \<Rightarrow> int \<Rightarrow> int \<Rightarrow> int \<Rightarrow> int \<Rightarrow> jsnum list \<Rightarrow> jsnum list" where
  "rowLoop d r rmax cmin cmax values =
     (if r \<le> rmax then rowLoop d (r + 1) rmax cmin cmax (colLoop d r cmin cmax values)
      else values)"
  by pat_completeness auto
termination
  by (relation "measure (\<lambda>(d, r, rmax, cmin, cmax, values). nat (rmax + 1 - r))") auto

definition getRangeValues :: "store \<Rightarrow> string \<Rightarrow> string \<Rightarrow> jsnum list" where
  "getRangeValues d start end =
     (case parseCellId start of
        None \<Rightarrow> []
      | Some startPos \<Rightarrow>
          (case parseCellId end of
             None \<Rightarrow> []
           | Some endPos \<Rightarrow>
               rowLoop d (min (row startPos) (row endPos)) (max (row startPos) (row endPos))
                 (min (col startPos) (col endPos)) (max (col startPos) (col endPos)) []))"

definition sumRange :: "store \<Rightarrow> string \<Rightarrow> string \<Rightarrow> jsnum" where
  "sumRange d start end = foldl jsAdd (Finite 0) (getRangeValues d start end)"

definition avgRange :: "store \<Rightarrow> string \<Rightarrow> string \<Rightarrow> jsnum" where
  "avgRange d start end =
     (let values = getRangeValues d start end
      in if length values \<noteq> 0
         then jsDiv (foldl jsAdd (Finite 0) values) (Finite (of_nat (length values)))
         else Finite 0)"

definition minRange :: "store \<Rightarrow> string \<Rightarrow> string \<Rightarrow> jsnum" where
  "minRange d start end =
     (let values = getRangeValues d start end
      in if length values \<noteq> 0 then mathMin values else Finite 0)"

definition maxRange :: "store \<Rightarrow> string \<Rightarrow> string \<Rightarrow> jsnum" where
  "maxRange d start end =
     (let values = getRangeValues d start end
      in if length values \<noteq> 0 then mathMax values else Finite 0)"

definition countRange :: "store \<Rightarrow> string \<Rightarrow> string \<Rightarrow> nat" where
  "countRange d start end = length (getRangeValues d start end)"





subsection \<open>Regular-expression replacement\<close>

text \<open>
  \<^verbatim>\<open>str.replace(/re/g, callback)\<close>, given what the expression does at one position:
  \<open>m s\<close> is \<open>Some (text, n)\<close> when the expression matches the first \<open>n\<close> characters
  of \<open>s\<close> and the callback returns \<open>text\<close> for that match. The scan goes left to
  right; after a match it continues behind the match, otherwise one character further.
  The first argument of \<open>replaceFrom\<close> counts the characters of the current match still
  to be skipped.
\<close>

fun replaceFrom :: "nat \<Rightarrow> (string \<Rightarrow> (string \<times> nat) option) \<Rightarrow> string \<Rightarrow> string" where
  "replaceFrom k m [] = []"
| "replaceFrom (Suc k) m (ch # cs) = replaceFrom k m cs"
| "replaceFrom 0 m (ch # cs) =
     (case m (ch # cs) of
        Some (text, n) \<Rightarrow> text @ replaceFrom (n - 1) m cs
      | None \<Rightarrow> ch # replaceFrom 0 m cs)"

definition replaceAll :: "(string \<Rightarrow> (string \<times> nat) option) \<Rightarrow> string \<Rightarrow> string" where
  "replaceAll m s = replaceFrom 0 m s"

text \<open>
  \<^verbatim>\<open>[A-Z]+\d+\<close> at the start of a string: the letters, the digits and the rest. Both
  runs are the longest ones: with fewer letters the next character is a letter, not a
  digit, and in the expressions below the character after the digits is not a digit.
\<close>

definition matchRef :: "string \<Rightarrow> (string \<times> string \<times> string) option" where
  "matchRef s =
     (let letters = takeWhile isUpper s;
          r = dropWhile isUpper s;
          digits = takeWhile isDigit r
      in if letters \<noteq> [] \<and> digits \<noteq> [] then Some (letters, digits, dropWhile isDigit r)
         else None)"

definition stripPrefix :: "string \<Rightarrow> string \<Rightarrow> string option" where
  "stripPrefix p s = (if startsWith s p then Some (drop (length p) s) else None)"

text \<open>\<^verbatim>\<open>NAME\(([A-Z]+\d+):([A-Z]+\d+)\)\<close> at the start of a string: the two labels and the length of the match.\<close>

definition matchCall :: "string \<Rightarrow> string \<Rightarrow> (string \<times> string \<times> nat) option" where
  "matchCall name s =
     (case stripPrefix (name @ ''('') s of
        None \<Rightarrow> None
      | Some r0 \<Rightarrow>
         (case matchRef r0 of
            None \<Rightarrow> None
          | Some (l1, d1, r1) \<Rightarrow>
             (case stripPrefix '':'' r1 of
                None \<Rightarrow> None
              | Some r2 \<Rightarrow>
                 (case matchRef r2 of
                    None \<Rightarrow> None
                  | Some (l2, d2, r3) \<Rightarrow>
                     (case stripPrefix '')'' r3 of
                        None \<Rightarrow> None
                      | Some rest \<Rightarrow> Some (l1 @ d1, l2 @ d2, length s - length rest))))))"

text \<open>An alternation of names, \<^verbatim>\<open>(?:AVG|AVERAGE)\<close>: the first that matches.\<close>

fun matchCalls :: "string list \<Rightarrow> string \<Rightarrow> (string \<times> string \<times> nat) option" where
  "matchCalls [] s = None"
| "matchCalls (name # names) s =
     (case matchCall name s of Some r \<Rightarrow> Some r | None \<Rightarrow> matchCalls names s)"

definition callMatcher ::
  "string list \<Rightarrow> (string \<Rightarrow> string \<Rightarrow> string) \<Rightarrow> string \<Rightarrow> (string \<times> nat) option" where
  "callMatcher names callback s =
     (case matchCalls names s of
        None \<Rightarrow> None
      | Some (start, end, n) \<Rightarrow> Some (callback start end, n))"

definition refMatcher ::
  "(string \<Rightarrow> string \<Rightarrow> string) \<Rightarrow> string \<Rightarrow> (string \<times> nat) option" where
  "refMatcher callback s =
     (case matchRef s of
        None \<Rightarrow> None
      | Some (letters, digits, rest) \<Rightarrow> Some (callback letters digits, length letters + length digits))"

subsection \<open>Formula evaluation\<close>

text \<open>The callback of the last replacement: the text put in place of a cell reference.\<close>

definition cellRefValue :: "host \<Rightarrow> store \<Rightarrow> string \<Rightarrow> string \<Rightarrow> string \<Rightarrow> string" where
  "cellRefValue H d currentCell c r =
     (let cellId = c @ r
      in if cellId = currentCell then numberToString H (Finite 0)
         else let v = (case map_of d cellId of Some cellData \<Rightarrow> val cellData
                       | None \<Rightarrow> Num (Finite 0))
              in numberToString H (if isNaN (parseFloat v) then Finite 0 else parseFloat v))"

text \<open>The expression after the six replacements: the text handed to \<^verbatim>\<open>Function\<close>.\<close>

definition substituted :: "host \<Rightarrow> store \<Rightarrow> string \<Rightarrow> string \<Rightarrow> string" where
  "substituted H d fm currentCell =
     (let expr = toUpperCase (drop 1 fm);
          expr = replaceAll (callMatcher [''SUM'']
                   (\<lambda>start end. numberToString H (sumRange d start end))) expr;
          expr = replaceAll (callMatcher [''AVG'', ''AVERAGE'']
                   (\<lambda>start end. numberToString H (avgRange d start end))) expr;
          expr = replaceAll (callMatcher [''MIN'']
                   (\<lambda>start end. numberToString H (minRange d start end))) expr;
          expr = replaceAll (callMatcher [''MAX'']
                   (\<lambda>start end. numberToString H (maxRange d start end))) expr;
          expr = replaceAll (callMatcher [''COUNT'']
                   (\<lambda>start end. numberToString H (Finite (of_nat (countRange d start end))))) expr;
          expr = replaceAll (refMatcher (cellRefValue H d currentCell)) expr
      in expr)"

definition functionBody :: "string \<Rightarrow> string" where
  "functionBody expr = [CHR 0x22] @ ''use strict'' @ [CHR 0x22] @ ''; return ('' @ expr @ '')''"

text \<open>\<^verbatim>\<open>evaluateFormula\<close>: an exception anywhere in the \<^verbatim>\<open>try\<close> block gives \<^verbatim>\<open>#ERROR\<close>.\<close>

definition evaluateFormula :: "host \<Rightarrow> store \<Rightarrow> string \<Rightarrow> string \<Rightarrow> jsval" where
  "evaluateFormula H d fm currentCell =
     (case runFunction H (functionBody (substituted H d fm currentCell)) of
        None \<Rightarrow> Str ''#ERROR''
      | Some result \<Rightarrow> if isNaN result then Str ''#ERROR'' else Num result)"

subsection \<open>Value formatting\<close>

text \<open>
  \<^verbatim>\<open>x.toFixed(1)\<close>: the sign, then the integer nearest to ten times the magnitude (the
  larger one at a tie) with a point before its last digit; the plain string of the
  number when it is not finite or is \<open>10\<^sup>2\<^sup>1\<close> or more.
\<close>

fun toFixed1 :: "host \<Rightarrow> jsnum \<Rightarrow> string" where
  "toFixed1 H (Finite q) =
     (if \<bar>q\<bar> \<ge> 10 ^ 21 then numberToString H (Finite q)
      else let n = nat \<lfloor>\<bar>q\<bar> * 10 + 1 / 2\<rfloor>
           in (if q < 0 then ''-'' else []) @ natToString (n div 10) @ ''.'' @ natToString (n mod 10))"
| "toFixed1 H x = numberToString H x"

definition formatValue :: "host \<Rightarrow> jsval \<Rightarrow> string option \<Rightarrow> jsval" where
  "formatValue H v fmt =
     (case fmt of
        None \<Rightarrow> v
      | Some t \<Rightarrow>
          if t = [] then v
          else let num = parseFloat v
               in if isNaN num then v
                  else if t = ''number'' then Str (toLocaleNumber H num)
                  else if t = ''currency'' then Str (toLocaleCurrency H num)
                  else if t = ''percent'' then Str (toFixed1 H (jsMul num (Finite 100)) @ ''%'')
                  else v)"

subsection \<open>Cell store operations\<close>

text \<open>The record \<^verbatim>\<open>{ value: '', formula: '', format: {} }\<close>.\<close>

definition emptyCell :: cell where
  "emptyCell = \<lparr>val = Str [], formula = [], format = None, displayValue = None\<rparr>"

text \<open>\<^verbatim>\<open>if (!state.data[cellId]) state.data[cellId] = {...}\<close>.\<close>

definition ensureCell :: "string \<Rightarrow> store \<Rightarrow> store" where
  "ensureCell cellId d =
     (case map_of d cellId of None \<Rightarrow> AList.update cellId emptyCell d | Some cellData \<Rightarrow> d)"

text \<open>An assignment to fields of the record stored under \<open>cellId\<close>.\<close>

definition modifyCell :: "string \<Rightarrow> (cell \<Rightarrow> cell) \<Rightarrow> store \<Rightarrow> store" where
  "modifyCell cellId f d =
     (case map_of d cellId of None \<Rightarrow> d | Some cellData \<Rightarrow> AList.update cellId (f cellData) d)"

subsection \<open>Recalculation\<close>

text \<open>The body of the \<^verbatim>\<open>forEach\<close> in \<^verbatim>\<open>recalculateAll\<close>, for one key.\<close>

definition recalcCell :: "host \<Rightarrow> store \<Rightarrow> string \<Rightarrow> store" where
  "recalcCell H d cellId =
     (case map_of d cellId of
        None \<Rightarrow> d
      | Some cellData \<Rightarrow>
          if formula cellData \<noteq> []
          then let v = evaluateFormula H d (formula cellData) cellId
               in AList.update cellId
                    (cellData\<lparr>val := v, displayValue := Some (formatValue H v (format cellData))\<rparr>) d
          else d)"

text \<open>\<^verbatim>\<open>Object.keys(state.data).forEach(...)\<close>: the keys are listed once, before the pass.\<close>

definition recalculateAll :: "host \<Rightarrow> store \<Rightarrow> store" where
  "recalculateAll H d = foldl (recalcCell H) d (map fst d)"

subsection \<open>Editing, clearing and formatting a cell\<close>

text \<open>The part of \<^verbatim>\<open>finishEditing\<close> that writes the edited cell, before the recalculation.\<close>

definition commitEdit :: "host \<Rightarrow> string \<Rightarrow> string \<Rightarrow> store \<Rightarrow> store" where
  "commitEdit H cellId v d =
     (let d = ensureCell cellId d
      in if startsWith v ''=''
         then let d = modifyCell cellId (\<lambda>cd. cd\<lparr>formula := v\<rparr>) d;
                  d = modifyCell cellId (\<lambda>cd. cd\<lparr>val := evaluateFormula H d v cellId\<rparr>) d
              in modifyCell cellId
                   (\<lambda>cd. cd\<lparr>displayValue := Some (formatValue H (val cd) (format cd))\<rparr>) d
         else let d = modifyCell cellId (\<lambda>cd. cd\<lparr>formula := []\<rparr>) d;
                  d = modifyCell cellId (\<lambda>cd. cd\<lparr>val := Str v\<rparr>) d
              in modifyCell cellId
                   (\<lambda>cd. cd\<lparr>displayValue := Some (formatValue H (Str v) (format cd))\<rparr>) d)"

definition finishEditing :: "host \<Rightarrow> string \<Rightarrow> string \<Rightarrow> state \<Rightarrow> state" where
  "finishEditing H cellId v s =
     (if \<not> isEditing s then s
      else s\<lparr>isEditing := False, data := recalculateAll H (commitEdit H cellId v (data s))\<rparr>)"

text \<open>The \<^verbatim>\<open>Delete\<close>/\<^verbatim>\<open>Backspace\<close> case of the key handler of a cell.\<close>

definition deleteKey :: "host \<Rightarrow> string \<Rightarrow> state \<Rightarrow> state" where
  "deleteKey H cellId s =
     (case parseCellId cellId of
        None \<Rightarrow> s
      | Some p \<Rightarrow>
          if isEditing s then s
          else s\<lparr>data := recalculateAll H (AList.delete cellId (data s))\<rparr>)"

definition applyFormat :: "host \<Rightarrow> string \<Rightarrow> state \<Rightarrow> state" where
  "applyFormat H t s =
     (case selectedCell s of
        None \<Rightarrow> s
      | Some cellId \<Rightarrow>
          let d = ensureCell cellId (data s);
              d = modifyCell cellId (\<lambda>cd. cd\<lparr>format := Some t\<rparr>) d;
              d = modifyCell cellId
                    (\<lambda>cd. cd\<lparr>displayValue := Some (formatValue H (val cd) (format cd))\<rparr>) d
          in s\<lparr>data := d\<rparr>)"

text \<open>\<^verbatim>\<open>startEditing\<close>: the state part of it.\<close>

definition startEditing :: "string \<Rightarrow> state \<Rightarrow> state" where
  "startEditing cellId s = (if isEditing s then s else s\<lparr>isEditing := True\<rparr>)"

text \<open>A whole edit of one cell: the cell is opened, the text typed and committed.\<close>

definition editCell :: "host \<Rightarrow> string \<Rightarrow> string \<Rightarrow> state \<Rightarrow> state" where
  "editCell H cellId v s = finishEditing H cellId v (startEditing cellId s)"

text \<open>
  What the pass does to the record of one key: a record with a formula gets the
  evaluator's result on the store \<open>d\<close> and its display string; any other is left alone.
\<close>

definition refreshed :: "host \<Rightarrow> store \<Rightarrow> string \<Rightarrow> cell \<Rightarrow> cell" where
  "refreshed H d cellId cellData =
     (if formula cellData \<noteq> []
      then cellData\<lparr>val := evaluateFormula H d (formula cellData) cellId,
             displayValue := Some (formatValue H
               (evaluateFormula H d (formula cellData) cellId) (format cellData))\<rparr>
      else cellData)"

text \<open>The store when the pass over \<open>d\<close> has visited its first \<open>i\<close> keys.\<close>

definition afterVisits :: "host \<Rightarrow> store \<Rightarrow> nat \<Rightarrow> store" where
  "afterVisits H d i = foldl (recalcCell H) d (take i (map fst d))"

text \<open>The values of a store, key by key.\<close>

definition vals :: "store \<Rightarrow> (string \<times> jsval) list" where
  "vals d = map (\<lambda>(k, cd). (k, val cd)) d"

subsection \<open>Loading a snapshot\<close>

text \<open>
  The parsed snapshot object: each property may be missing. \<^verbatim>\<open>x || dflt\<close> takes the
  default for a missing property and for \<open>0\<close>.
\<close>

record snapshot =
  snapData :: "store option"
  snapRows :: "int option"
  snapCols :: "int option"

definition orDefault :: "int option \<Rightarrow> int \<Rightarrow> int" where
  "orDefault x dflt = (case x of None \<Rightarrow> dflt | Some n \<Rightarrow> if n = 0 then dflt else n)"

text \<open>
  What \<^verbatim>\<open>localStorage.getItem('numbers-sheet')\<close> holds: nothing, a text that
  \<^verbatim>\<open>JSON.parse\<close> rejects (the exception is caught and logged), or a snapshot.
\<close>

datatype savedItem = NoItem | Unparsable | Parsed snapshot

fun loadFromLocalStorage :: "savedItem \<Rightarrow> state \<Rightarrow> state" where
  "loadFromLocalStorage NoItem s = s"
| "loadFromLocalStorage Unparsable s = s"
| "loadFromLocalStorage (Parsed snap) s =
     s\<lparr>data := (case snapData snap of None \<Rightarrow> [] | Some d \<Rightarrow> d),
       rows := orDefault (snapRows snap) (defaultRows CONFIG),
       cols := orDefault (snapCols snap) (defaultCols CONFIG)\<rparr>"

text \<open>
  \<^verbatim>\<open>loadFromFilesystem\<close>: \<open>content\<close> is \<^verbatim>\<open>file.content\<close>, \<open>None\<close> when there is no
  such file, no content, or the file system throws.
\<close>

fun loadFromFilesystem :: "string \<Rightarrow> snapshot option \<Rightarrow> state \<Rightarrow> state" where
  "loadFromFilesystem filePath None s = s"
| "loadFromFilesystem filePath (Some content) s =
     s\<lparr>currentFilePath := Some filePath,
       data := (case snapData content of None \<Rightarrow> [] | Some d \<Rightarrow> d),
       rows := orDefault (snapRows content) (defaultRows CONFIG),
       cols := orDefault (snapCols content) (defaultCols CONFIG)\<rparr>"

subsection \<open>A host for worked examples\<close>

text \<open>
  The examples below run on \<open>exampleHost\<close>. Its \<open>runFunction\<close> evaluates the function
  bodies the program builds, \<^verbatim>\<open>"use strict"; return (expr)\<close>, for arithmetic
  expressions: decimal literals, \<^verbatim>\<open>Infinity\<close>, \<^verbatim>\<open>NaN\<close>, the operators
  \<^verbatim>\<open>+ - * /\<close> (binary, and \<^verbatim>\<open>+ -\<close> unary) and parentheses, with the syntax errors of
  strict mode on that fragment (\<^verbatim>\<open>++\<close> and \<^verbatim>\<open>--\<close>, a leading zero before a digit, two
  operands in a row, unbalanced parentheses). Any other text is reported as an exception;
  no example contains one.
\<close>

datatype token = TNum jsnum | TPlus | TMinus | TStar | TSlash | TOpen | TClose

definition consToken :: "token \<Rightarrow> token list option \<Rightarrow> token list option" where
  "consToken t r = map_option ((#) t) r"

definition legacyZero :: "string \<Rightarrow> bool" where
  "legacyZero s = (case s of c1 # c2 # cs \<Rightarrow> c1 = CHR ''0'' \<and> isDigit c2 | _ \<Rightarrow> False)"

fun tokenizeFrom :: "nat \<Rightarrow> string \<Rightarrow> token list option" where
  "tokenizeFrom k [] = Some []"
| "tokenizeFrom (Suc k) (ch # cs) = tokenizeFrom k cs"
| "tokenizeFrom 0 (ch # cs) =
     (if isWhiteSpace ch then tokenizeFrom 0 cs
      else if ch = CHR ''('' then consToken TOpen (tokenizeFrom 0 cs)
      else if ch = CHR '')'' then consToken TClose (tokenizeFrom 0 cs)
      else if ch = CHR ''+'' then
        (if startsWith cs ''+'' then None else consToken TPlus (tokenizeFrom 0 cs))
      else if ch = CHR ''-'' then
        (if startsWith cs ''-'' then None else consToken TMinus (tokenizeFrom 0 cs))
      else if ch = CHR ''*'' then
        (if startsWith cs ''*'' then None else consToken TStar (tokenizeFrom 0 cs))
      else if ch = CHR ''/'' then
        (if startsWith cs ''/'' \<or> startsWith cs ''*'' then None
         else consToken TSlash (tokenizeFrom 0 cs))
      else if startsWith (ch # cs) ''Infinity'' then consToken (TNum Infinity) (tokenizeFrom 7 cs)
      else if startsWith (ch # cs) ''NaN'' then consToken (TNum NaN) (tokenizeFrom 2 cs)
      else (case readDecimal (ch # cs) of
              None \<Rightarrow> None
            | Some (q, n) \<Rightarrow>
                if legacyZero (ch # cs) then None
                else consToken (TNum (Finite q)) (tokenizeFrom (n - 1) cs)))"

text \<open>
  One frame per open parenthesis: the sum so far, whether the current term is to be
  subtracted, the current product, whether the next operand divides it, and whether an
  odd number of unary minus signs stands before the next operand.
\<close>

datatype frame = Frame jsnum bool jsnum bool bool

definition newFrame :: frame where
  "newFrame = Frame (Finite 0) False (Finite 1) False False"

fun frameValue :: "frame \<Rightarrow> jsnum" where
  "frameValue (Frame acc sub term dv ng) = (if sub then jsSub acc term else jsAdd acc term)"

fun pushOperand :: "jsnum \<Rightarrow> frame \<Rightarrow> frame" where
  "pushOperand v (Frame acc sub term dv ng) =
     (let v' = (if ng then jsNeg v else v)
      in Frame acc sub (if dv then jsDiv term v' else jsMul term v') False False)"

fun toggleNeg :: "frame \<Rightarrow> frame" where
  "toggleNeg (Frame acc sub term dv ng) = Frame acc sub term dv (\<not> ng)"

fun startTerm :: "bool \<Rightarrow> frame \<Rightarrow> frame" where
  "startTerm sub' (Frame acc sub term dv ng) =
     Frame (frameValue (Frame acc sub term dv ng)) sub' (Finite 1) False False"

fun startFactor :: "bool \<Rightarrow> frame \<Rightarrow> frame" where
  "startFactor dv' (Frame acc sub term dv ng) = Frame acc sub term dv' False"

fun evalTokens :: "bool \<Rightarrow> frame list \<Rightarrow> token list \<Rightarrow> jsnum option" where
  "evalTokens False [f] [] = Some (frameValue f)"
| "evalTokens True (f # fs) (TNum v # ts) = evalTokens False (pushOperand v f # fs) ts"
| "evalTokens True (f # fs) (TMinus # ts) = evalTokens True (toggleNeg f # fs) ts"
| "evalTokens True (f # fs) (TPlus # ts) = evalTokens True (f # fs) ts"
| "evalTokens True fs (TOpen # ts) = evalTokens True (newFrame # fs) ts"
| "evalTokens False (f # fs) (TPlus # ts) = evalTokens True (startTerm False f # fs) ts"
| "evalTokens False (f # fs) (TMinus # ts) = evalTokens True (startTerm True f # fs) ts"
| "evalTokens False (f # fs) (TStar # ts) = evalTokens True (startFactor False f # fs) ts"
| "evalTokens False (f # fs) (TSlash # ts) = evalTokens True (startFactor True f # fs) ts"
| "evalTokens False (f # g # fs) (TClose # ts) =
     evalTokens False (pushOperand (frameValue f) g # fs) ts"
| "evalTokens expectOperand fs ts = None"

definition runArithmetic :: "string \<Rightarrow> jsnum option" where
  "runArithmetic body =
     (case stripPrefix ([CHR 0x22] @ ''use strict'' @ [CHR 0x22] @ ''; return'') body of
        None \<Rightarrow> None
      | Some rest \<Rightarrow>
          (case tokenizeFrom 0 rest of
             None \<Rightarrow> None
           | Some ts \<Rightarrow> evalTokens True [newFrame] ts))"

text \<open>
  The digits after the point of a number in \<open>[0, 1)\<close>, at most \<open>n\<close> of them: the
  string \<open>exampleHost\<close> gives is the exact decimal expansion when that is short.
\<close>

fun fractionDigits :: "nat \<Rightarrow> rat \<Rightarrow> string" where
  "fractionDigits 0 q = []"
| "fractionDigits (Suc n) q =
     (if q = 0 then []
      else char_of (48 + nat \<lfloor>q * 10\<rfloor>) # fractionDigits n (q * 10 - of_int \<lfloor>q * 10\<rfloor>))"

definition decimalExpansion :: "rat \<Rightarrow> string" where
  "decimalExpansion q =
     (if q < 0 then ''-'' else []) @ natToString (nat \<lfloor>\<bar>q\<bar>\<rfloor>) @ ''.'' @
     fractionDigits 17 (\<bar>q\<bar> - of_int \<lfloor>\<bar>q\<bar>\<rfloor>)"

text \<open>
  No example formats with \<^verbatim>\<open>number\<close> or \<^verbatim>\<open>currency\<close>: the locale functions of
  \<open>exampleHost\<close> return the empty string.
\<close>

definition exampleHost :: host where
  "exampleHost =
     \<lparr>runFunction = runArithmetic, fractionToString = decimalExpansion,
      toLocaleNumber = (\<lambda>x. []), toLocaleCurrency = (\<lambda>x. [])\<rparr>"

section \<open>Properties\<close>

subsection \<open>Address codec\<close>

declare colToLetterLoop.simps [simp del]
declare natToString.simps [simp del]

lemma colToLetterLoop_append: "colToLetterLoop c (xs @ ys) = colToLetterLoop c xs @ ys"
proof (induction c xs rule: colToLetterLoop.induct)
  case (1 c letter)
  show ?case
  proof (cases "c \<ge> 0")
    case True
    with 1 show ?thesis
      by (simp add: colToLetterLoop.simps [of c "letter @ ys"] colToLetterLoop.simps [of c letter])
  next
    case False
    then show ?thesis
      by (simp add: colToLetterLoop.simps [of c "letter @ ys"] colToLetterLoop.simps [of c letter])
  qed
qed

lemma colToLetter_rec:
  "c \<ge> 0 \<Longrightarrow> colToLetter c = colToLetter (c div 26 - 1) @ [char_of (65 + c mod 26)]"
  using colToLetterLoop_append [of "c div 26 - 1" "[]" "[char_of (65 + c mod 26)]"]
  by (simp add: colToLetter_def colToLetterLoop.simps [of c "[]"])

lemma colToLetter_neg: "c < 0 \<Longrightarrow> colToLetter c = []"
  by (simp add: colToLetter_def colToLetterLoop.simps [of c "[]"])

lemma of_char_char_of_int: "0 \<le> k \<Longrightarrow> k < 256 \<Longrightarrow> (of_char (char_of (k::int)) :: nat) = nat k"
  by (metis nat_of_char of_char_of mod_pos_pos_trivial)

lemma of_char_char_of_int': "0 \<le> k \<Longrightarrow> k < 256 \<Longrightarrow> (of_char (char_of (k::int)) :: int) = k"
  by (simp add: of_char_of)

lemma of_char_char_of_nat: "k < 256 \<Longrightarrow> (of_char (char_of (k::nat)) :: nat) = k"
  by (simp add: of_char_of)

lemma of_char_char_of_nat_int: "k < 256 \<Longrightarrow> (of_char (char_of (k::nat)) :: int) = int k"
  by (metis of_nat_of_char of_char_of mod_less)

lemma isUpper_letter: "0 \<le> k \<Longrightarrow> k < 26 \<Longrightarrow> isUpper (char_of (65 + k :: int))"
  by (simp add: isUpper_def of_char_char_of_int) linarith

lemma isDigit_digit: "k < 10 \<Longrightarrow> isDigit (char_of (48 + k :: nat))"
  by (simp add: isDigit_def of_char_char_of_nat)

lemma isDigit_not_isUpper: "isDigit ch \<Longrightarrow> \<not> isUpper ch"
  by (simp add: isDigit_def isUpper_def)

lemma colToLetter_upper: "list_all isUpper (colToLetter c)"
proof (induction "nat (c + 1)" arbitrary: c rule: less_induct)
  case less
  show ?case
  proof (cases "c \<ge> 0")
    case True
    have "nat (c div 26 - 1 + 1) < nat (c + 1)" using True by simp
    from less [OF this] True show ?thesis
      by (simp add: colToLetter_rec [of c] isUpper_letter)
  next
    case False
    then show ?thesis by (simp add: colToLetter_neg)
  qed
qed

lemma colToLetter_nonempty: "c \<ge> 0 \<Longrightarrow> colToLetter c \<noteq> []"
  by (simp add: colToLetter_rec [of c])

lemma letterToCol_snoc:
  "letterToCol (xs @ [ch]) = (letterToCol xs + 1) * 26 + (of_char ch - 64) - 1"
  by (simp add: letterToCol_def)

lemma letterToCol_colToLetter: "c \<ge> 0 \<Longrightarrow> letterToCol (colToLetter c) = c"
proof (induction "nat (c + 1)" arbitrary: c rule: less_induct)
  case less
  have lt: "nat (c div 26 - 1 + 1) < nat (c + 1)" using less.prems by simp
  have code: "(of_char (char_of (65 + c mod 26)) :: int) = 65 + c mod 26"
    by (rule of_char_char_of_int') simp_all
  show ?case
  proof (cases "c div 26 - 1 \<ge> 0")
    case True
    from less.hyps [OF lt True] show ?thesis
      by (simp add: colToLetter_rec [OF less.prems] letterToCol_snoc code)
  next
    case False
    then have "c div 26 = 0" using less.prems
      by (smt (verit) pos_imp_zdiv_nonneg_iff)
    moreover have "colToLetter (c div 26 - 1) = []" using False by (simp add: colToLetter_neg)
    ultimately show ?thesis
      using less.prems
      by (simp add: colToLetter_rec [OF less.prems] letterToCol_snoc code letterToCol_def)
  qed
qed

lemma natToString_digits: "list_all isDigit (natToString n)"
proof (induction n rule: natToString.induct)
  case (1 n)
  then show ?case
    by (cases "n < 10") (simp_all add: natToString.simps [of n] isDigit_digit)
qed

lemma natToString_nonempty: "natToString n \<noteq> []"
  by (simp add: natToString.simps [of n])

lemma parseInt_snoc: "parseInt (ds @ [ch]) = parseInt ds * 10 + (of_char ch - 48)"
  by (simp add: parseInt_def)

lemma parseInt_natToString: "parseInt (natToString n) = int n"
proof (induction n rule: natToString.induct)
  case (1 n)
  show ?case
  proof (cases "n < 10")
    case True
    then have "(of_char (char_of (48 + n)) :: int) = 48 + int n"
      by (simp add: of_char_char_of_nat_int)
    with True show ?thesis
      by (simp add: natToString.simps [of n] parseInt_def)
  next
    case False
    have "(of_char (char_of (48 + n mod 10)) :: int) = 48 + int (n mod 10)"
      by (simp add: of_char_char_of_nat_int)
    moreover have "int (n div 10) * 10 + int (n mod 10) = int n"
      by (simp add: zdiv_int zmod_int)
    ultimately show ?thesis
      using False 1 by (simp add: natToString.simps [of n] parseInt_snoc)
  qed
qed

lemma takeWhile_letters_digits:
  assumes "list_all isUpper ls" "ds \<noteq> []" "list_all isDigit ds"
  shows "takeWhile isUpper (ls @ ds) = ls" "dropWhile isUpper (ls @ ds) = ds"
proof -
  from assms obtain d ds' where ds: "ds = d # ds'" and "isDigit d"
    by (cases ds) auto
  then have nd: "\<not> isUpper d" by (simp add: isDigit_not_isUpper)
  from assms(1) have all: "\<forall>x\<in>set ls. isUpper x" by (simp add: list_all_iff)
  show "takeWhile isUpper (ls @ ds) = ls"
    using all nd ds by simp
  show "dropWhile isUpper (ls @ ds) = ds"
    using all nd ds by simp
qed

lemma parseCellId_letters_digits:
  assumes "ls \<noteq> []" "list_all isUpper ls" "ds \<noteq> []" "list_all isDigit ds"
  shows "parseCellId (ls @ ds) = Some \<lparr>col = letterToCol ls, row = parseInt ds - 1\<rparr>"
  using assms takeWhile_letters_digits [OF assms(2,3,4)]
  by (simp add: parseCellId_def)

lemma parseCellId_getCellId:
  assumes "r \<ge> 0" "c \<ge> 0"
  shows "parseCellId (getCellId r c) = Some \<lparr>col = c, row = r\<rparr>"
proof -
  have "parseCellId (colToLetter c @ natToString (nat (r + 1)))
      = Some \<lparr>col = letterToCol (colToLetter c), row = parseInt (natToString (nat (r + 1))) - 1\<rparr>"
    by (rule parseCellId_letters_digits)
       (simp_all add: colToLetter_nonempty assms colToLetter_upper natToString_nonempty natToString_digits)
  then show ?thesis
    using assms by (simp add: getCellId_def intToString_def letterToCol_colToLetter parseInt_natToString)
qed

text \<open>
  Claim C1 (address round-trip). For every row in \<open>[0, 1000)\<close> and every column in
  \<open>[0, 52)\<close>, the label built by \<open>getCellId\<close> is the column letters of
  \<open>colToLetter\<close> followed by the decimal digits of the 1-based row, and \<open>parseCellId\<close>
  maps that label back to exactly the original row and column.
\<close>

theorem address_round_trip:
  assumes "0 \<le> r" "r < 1000" "0 \<le> c" "c < 52"
  shows "getCellId r c = colToLetter c @ natToString (nat (r + 1)) \<and>
         parseCellId (getCellId r c) = Some \<lparr>col = c, row = r\<rparr>"
proof
  show "getCellId r c = colToLetter c @ natToString (nat (r + 1))"
    using assms by (simp add: getCellId_def intToString_def)
  show "parseCellId (getCellId r c) = Some \<lparr>col = c, row = r\<rparr>"
    using assms by (simp add: parseCellId_getCellId)
qed

theorem address_round_trip_witness:
  "(0::int) \<le> 999 \<and> (999::int) < 1000 \<and> (0::int) \<le> 51 \<and> (51::int) < 52 \<and>
   getCellId 999 51 = ''AZ1000'' \<and>
   parseCellId ''AZ1000'' = Some \<lparr>col = 51, row = 999\<rparr>"
proof -
  have label: "getCellId 999 51 = ''AZ1000''" by code_simp
  have "parseCellId (getCellId 999 51) = Some \<lparr>col = 51, row = 999\<rparr>"
    using conjunct2 [OF address_round_trip [of 999 51]] by simp
  then show ?thesis by (simp add: label)
qed

lemma parseInt_leading_zeros: "parseInt (replicate k (CHR ''0'') @ ds) = parseInt ds"
proof (induction k)
  case 0
  show ?case by simp
next
  case (Suc k)
  have "parseInt (CHR ''0'' # xs) = parseInt xs" for xs
    by (simp add: parseInt_def)
  with Suc show ?case by simp
qed

lemma isDigit_zero: "isDigit (CHR ''0'')"
  by (simp add: isDigit_def)

lemma isDigit_zeros: "list_all isDigit (replicate k (CHR ''0''))"
  by (induction k) (simp_all add: isDigit_zero)

text \<open>
  Claim C10 (leading zeros). For every non-empty string \<open>L\<close> of capital letters, every
  row number \<open>n\<close> and every number \<open>k\<close> of inserted zeros, \<open>parseCellId\<close> maps
  \<open>L0\<dots>0n\<close> to the same address as \<open>Ln\<close>. So \<^verbatim>\<open>A01\<close> and \<^verbatim>\<open>A1\<close> both map
  to row 0, column 0: \<open>parseCellId\<close> is not injective on the labels it accepts, and
  \<open>getCellId\<close> of the address of \<^verbatim>\<open>A01\<close> is \<^verbatim>\<open>A1\<close>, not \<^verbatim>\<open>A01\<close>.
\<close>

theorem parseCellId_leading_zeros:
  assumes "L \<noteq> []" "list_all isUpper L"
  shows "parseCellId (L @ replicate k (CHR ''0'') @ natToString n)
           = Some \<lparr>col = letterToCol L, row = int n - 1\<rparr> \<and>
         parseCellId (L @ natToString n) = Some \<lparr>col = letterToCol L, row = int n - 1\<rparr> \<and>
         parseCellId ''A01'' = Some \<lparr>col = 0, row = 0\<rparr> \<and>
         parseCellId ''A1'' = Some \<lparr>col = 0, row = 0\<rparr> \<and>
         getCellId 0 0 = ''A1'' \<and> ''A1'' \<noteq> ''A01''"
proof -
  have ds: "replicate k (CHR ''0'') @ natToString n \<noteq> []"
           "list_all isDigit (replicate k (CHR ''0'') @ natToString n)"
    by (simp_all add: natToString_nonempty natToString_digits isDigit_zeros)
  have "parseCellId (L @ replicate k (CHR ''0'') @ natToString n)
          = Some \<lparr>col = letterToCol L, row = int n - 1\<rparr>"
    using parseCellId_letters_digits [OF assms ds]
    by (simp add: parseInt_leading_zeros parseInt_natToString)
  moreover have "parseCellId (L @ natToString n) = Some \<lparr>col = letterToCol L, row = int n - 1\<rparr>"
    using parseCellId_letters_digits [OF assms natToString_nonempty natToString_digits]
    by (simp add: parseInt_natToString)
  moreover have "parseCellId ''A01'' = Some \<lparr>col = 0, row = 0\<rparr>" by code_simp
  moreover have "parseCellId ''A1'' = Some \<lparr>col = 0, row = 0\<rparr>" by code_simp
  moreover have "getCellId 0 0 = ''A1''" by code_simp
  ultimately show ?thesis by simp
qed

theorem parseCellId_leading_zeros_witness:
  "''B'' \<noteq> [] \<and> list_all isUpper ''B'' \<and>
   parseCellId (''B'' @ replicate 2 (CHR ''0'') @ natToString 7) = Some \<lparr>col = 1, row = 6\<rparr> \<and>
   parseCellId (''B'' @ natToString 7) = Some \<lparr>col = 1, row = 6\<rparr>"
proof -
  have h1: "''B'' \<noteq> []" by simp
  have h2: "list_all isUpper ''B''" by code_simp
  have h3: "letterToCol ''B'' = 1" by code_simp
  from parseCellId_leading_zeros [OF h1 h2, of 2 7] h1 h2 h3 show ?thesis by simp
qed

subsection \<open>Grid dimensions\<close>

lemma dimsOk_initialState: "dimsOk initialState"
  by (simp add: dimsOk_def initialState_def CONFIG_def)

lemma dimsOk_click: "dimsOk s \<Longrightarrow> dimsOk (click s b)"
  by (cases b)
     (auto simp: dimsOk_def addRowBtn_def addColBtn_def deleteRowBtn_def deleteColBtn_def CONFIG_def)

lemma dimsOk_clicks: "dimsOk s \<Longrightarrow> dimsOk (clicks s bs)"
  unfolding clicks_def
  by (induction bs arbitrary: s) (simp_all add: dimsOk_click)

text \<open>
  Claim C8 (grid-dimension invariant). Starting from the default dimensions, after every
  sequence of add-row, add-column, delete-row and delete-column clicks the row count is
  between 1 and 1000 and the column count between 1 and 52; a click that would cross a
  bound leaves the count at the bound (the state is returned, nothing fails).
\<close>

theorem grid_dimensions_invariant:
  "1 \<le> rows (clicks initialState bs) \<and> rows (clicks initialState bs) \<le> 1000 \<and>
   1 \<le> cols (clicks initialState bs) \<and> cols (clicks initialState bs) \<le> 52 \<and>
   maxRows CONFIG = 1000 \<and> maxCols CONFIG = 52 \<and>
   rows (addRowBtn (s\<lparr>rows := 1000\<rparr>)) = 1000 \<and>
   cols (addColBtn (s\<lparr>cols := 52\<rparr>)) = 52 \<and>
   rows (deleteRowBtn (s\<lparr>rows := 1\<rparr>)) = 1 \<and>
   cols (deleteColBtn (s\<lparr>cols := 1\<rparr>)) = 1"
proof -
  have "dimsOk (clicks initialState bs)"
    by (rule dimsOk_clicks [OF dimsOk_initialState])
  then show ?thesis
    by (simp add: dimsOk_def CONFIG_def addRowBtn_def addColBtn_def deleteRowBtn_def deleteColBtn_def)
qed

subsection \<open>Store operations\<close>

lemma map_of_ensureCell:
  "map_of (ensureCell c d) k =
     (if k = c \<and> map_of d c = None then Some emptyCell else map_of d k)"
  by (simp add: ensureCell_def update_conv' split: option.splits)

lemma map_of_modifyCell:
  "map_of (modifyCell c f d) k = (if k = c then map_option f (map_of d c) else map_of d k)"
  by (simp add: modifyCell_def update_conv' split: option.splits)

lemma keys_modifyCell: "map fst (modifyCell c f d) = map fst d"
proof (cases "map_of d c")
  case None
  then show ?thesis by (simp add: modifyCell_def)
next
  case (Some cd)
  then have "c \<in> fst ` set d" by (metis map_of_eq_None_iff option.distinct(1))
  with Some show ?thesis by (simp add: modifyCell_def update_keys)
qed

lemma map_of_Some_key: "map_of d c = Some x \<Longrightarrow> c \<in> fst ` set d"
  by (metis map_of_eq_None_iff option.distinct(1))

lemma keys_ensureCell:
  "map fst (ensureCell c d) = (if c \<in> fst ` set d then map fst d else map fst d @ [c])"
  by (auto simp: ensureCell_def update_keys map_of_eq_None_iff dest: map_of_Some_key split: option.splits)

lemma map_of_recalcCell_other: "k \<noteq> c \<Longrightarrow> map_of (recalcCell H d c) k = map_of d k"
  by (simp add: recalcCell_def update_conv' Let_def split: option.splits)

lemma map_of_recalcCell_same:
  "map_of (recalcCell H d c) c =
     (case map_of d c of
        None \<Rightarrow> None
      | Some cd \<Rightarrow>
          if formula cd \<noteq> []
          then Some (cd\<lparr>val := evaluateFormula H d (formula cd) c,
                        displayValue := Some (formatValue H (evaluateFormula H d (formula cd) c) (format cd))\<rparr>)
          else Some cd)"
  by (simp add: recalcCell_def update_conv' Let_def split: option.splits)

lemma keys_recalcCell: "map fst (recalcCell H d c) = map fst d"
proof (cases "map_of d c")
  case None
  then show ?thesis by (simp add: recalcCell_def)
next
  case (Some cd)
  then have "c \<in> fst ` set d" by (metis map_of_eq_None_iff option.distinct(1))
  with Some show ?thesis by (simp add: recalcCell_def update_keys Let_def)
qed

lemma keys_recalc_fold: "map fst (foldl (recalcCell H) d ks) = map fst d"
  by (induction ks arbitrary: d) (simp_all add: keys_recalcCell)

lemma recalc_fold_absent:
  "map_of d c = None \<Longrightarrow> map_of (foldl (recalcCell H) d ks) c = None"
proof (induction ks arbitrary: d)
  case Nil
  then show ?case by simp
next
  case (Cons k ks)
  have "map_of (recalcCell H d k) c = None"
    using Cons.prems by (cases "k = c") (simp_all add: map_of_recalcCell_other map_of_recalcCell_same)
  then show ?case using Cons.IH by simp
qed

lemma recalc_fold_plain:
  "map_of d c = Some cd \<Longrightarrow> formula cd = [] \<Longrightarrow> map_of (foldl (recalcCell H) d ks) c = Some cd"
proof (induction ks arbitrary: d)
  case Nil
  then show ?case by simp
next
  case (Cons k ks)
  have "map_of (recalcCell H d k) c = Some cd"
    using Cons.prems by (cases "k = c") (simp_all add: map_of_recalcCell_other map_of_recalcCell_same)
  then show ?case using Cons.IH Cons.prems(2) by simp
qed

lemma formatValue_empty: "formatValue H (Str []) fmt = Str []"
proof -
  have "parseFloat (Str []) = NaN" by code_simp
  then show ?thesis by (simp add: formatValue_def isNaN_def split: option.splits)
qed

lemma startsWith_empty: "\<not> startsWith [] ''=''"
  by (simp add: startsWith_def)

lemma map_of_commitEdit_text:
  "\<not> startsWith v ''='' \<Longrightarrow>
   map_of (commitEdit H c v d) c =
     Some ((case map_of d c of None \<Rightarrow> emptyCell | Some cd \<Rightarrow> cd)
            \<lparr>val := Str v, formula := [],
             displayValue := Some (formatValue H (Str v) (format (case map_of d c of None \<Rightarrow> emptyCell | Some cd \<Rightarrow> cd)))\<rparr>)"
  by (simp add: commitEdit_def Let_def map_of_modifyCell map_of_ensureCell split: option.splits)

lemma finishEditing_empty:
  assumes "isEditing s"
  shows "map_of (data (finishEditing H c [] s)) c =
           Some ((case map_of (data s) c of None \<Rightarrow> emptyCell | Some cd \<Rightarrow> cd)
                  \<lparr>val := Str [], formula := [], displayValue := Some (Str [])\<rparr>)"
proof -
  let ?cd = "(case map_of (data s) c of None \<Rightarrow> emptyCell | Some cd \<Rightarrow> cd)
               \<lparr>val := Str [], formula := [], displayValue := Some (Str [])\<rparr>"
  have "map_of (commitEdit H c [] (data s)) c = Some ?cd"
    by (simp add: map_of_commitEdit_text startsWith_empty formatValue_empty)
  then show ?thesis
    using assms by (simp add: finishEditing_def recalculateAll_def recalc_fold_plain)
qed

text \<open>
  Claim C9 (an empty edit is not a clear). Committing an edit whose input is the empty
  string (\<open>finishEditing\<close> on a state that is editing) leaves or creates a record for
  the cell, with value \<^verbatim>\<open>''\<close>, formula \<^verbatim>\<open>''\<close> and the format it had; the label stays
  a key of the store. In no state does \<open>finishEditing\<close> with the empty string remove
  the cell's entry. The Delete/Backspace handler removes the key, so the two operations
  leave observably different stores.
\<close>

theorem empty_edit_keeps_record:
  assumes "isEditing s" "\<not> isEditing s'" "parseCellId c = Some p"
  shows "map_of (data (finishEditing H c [] s)) c =
           Some ((case map_of (data s) c of None \<Rightarrow> emptyCell | Some cd \<Rightarrow> cd)
                  \<lparr>val := Str [], formula := [], displayValue := Some (Str [])\<rparr>) \<and>
         c \<in> fst ` set (data (finishEditing H c [] s)) \<and>
         (c \<in> fst ` set (data s0) \<longrightarrow> c \<in> fst ` set (data (finishEditing H c [] s0))) \<and>
         map_of (data (deleteKey H c s')) c = None \<and>
         c \<notin> fst ` set (data (deleteKey H c s'))"
proof -
  have 1: "map_of (data (finishEditing H c [] s)) c =
           Some ((case map_of (data s) c of None \<Rightarrow> emptyCell | Some cd \<Rightarrow> cd)
                  \<lparr>val := Str [], formula := [], displayValue := Some (Str [])\<rparr>)"
    using assms(1) by (rule finishEditing_empty)
  then have 2: "c \<in> fst ` set (data (finishEditing H c [] s))"
    by (rule map_of_Some_key)
  have 3: "c \<in> fst ` set (data s0) \<longrightarrow> c \<in> fst ` set (data (finishEditing H c [] s0))"
  proof (cases "isEditing s0")
    case True
    from finishEditing_empty [OF True, of H c] show ?thesis
      by (simp add: map_of_Some_key)
  next
    case False
    then show ?thesis by (simp add: finishEditing_def)
  qed
  have "map_of (AList.delete c (data s')) c = None"
    by (simp add: delete_conv')
  then have 4: "map_of (data (deleteKey H c s')) c = None"
    using assms(2,3) by (simp add: deleteKey_def recalculateAll_def recalc_fold_absent)
  then have 5: "c \<notin> fst ` set (data (deleteKey H c s'))"
    by (simp add: map_of_eq_None_iff)
  from 1 2 3 4 5 show ?thesis by simp
qed

theorem empty_edit_keeps_record_witness:
  "isEditing \<lparr>rows = 50, cols = 26,
      data = [(''A1'', \<lparr>val = Str ''7'', formula = [], format = Some ''percent'',
                         displayValue = Some (Str ''700.0%'')\<rparr>)],
      selectedCell = Some ''A1'', isEditing = True, currentFilePath = None\<rparr> \<and>
   \<not> isEditing \<lparr>rows = 50, cols = 26,
      data = [(''A1'', \<lparr>val = Str ''7'', formula = [], format = Some ''percent'',
                         displayValue = Some (Str ''700.0%'')\<rparr>)],
      selectedCell = Some ''A1'', isEditing = False, currentFilePath = None\<rparr> \<and>
   parseCellId ''A1'' = Some \<lparr>col = 0, row = 0\<rparr> \<and>
   map_of (data (finishEditing exampleHost ''A1'' []
     \<lparr>rows = 50, cols = 26,
      data = [(''A1'', \<lparr>val = Str ''7'', formula = [], format = Some ''percent'',
                         displayValue = Some (Str ''700.0%'')\<rparr>)],
      selectedCell = Some ''A1'', isEditing = True, currentFilePath = None\<rparr>)) ''A1''
     = Some \<lparr>val = Str [], formula = [], format = Some ''percent'',
             displayValue = Some (Str [])\<rparr> \<and>
   ''A1'' \<in> fst ` set (data (finishEditing exampleHost ''A1'' []
     \<lparr>rows = 50, cols = 26,
      data = [(''A1'', \<lparr>val = Str ''7'', formula = [], format = Some ''percent'',
                         displayValue = Some (Str ''700.0%'')\<rparr>)],
      selectedCell = Some ''A1'', isEditing = False, currentFilePath = None\<rparr>)) \<and>
   map_of (data (deleteKey exampleHost ''A1''
     \<lparr>rows = 50, cols = 26,
      data = [(''A1'', \<lparr>val = Str ''7'', formula = [], format = Some ''percent'',
                         displayValue = Some (Str ''700.0%'')\<rparr>)],
      selectedCell = Some ''A1'', isEditing = False, currentFilePath = None\<rparr>)) ''A1'' = None"
proof -
  let ?d = "[(''A1'', \<lparr>val = Str ''7'', formula = [], format = Some ''percent'',
                        displayValue = Some (Str ''700.0%'')\<rparr>)]"
  let ?s = "\<lparr>rows = 50, cols = 26, data = ?d,
             selectedCell = Some ''A1'', isEditing = True, currentFilePath = None\<rparr>"
  let ?s' = "\<lparr>rows = 50, cols = 26, data = ?d,
              selectedCell = Some ''A1'', isEditing = False, currentFilePath = None\<rparr>"
  have h1: "isEditing ?s" by simp
  have h2: "\<not> isEditing ?s'" by simp
  have h3: "parseCellId ''A1'' = Some \<lparr>col = 0, row = 0\<rparr>" by code_simp
  have h4: "''A1'' \<in> fst ` set (data ?s')" by simp
  from empty_edit_keeps_record [OF h1 h2 h3, of exampleHost ?s'] h1 h2 h3 h4
  show ?thesis by simp
qed

subsection \<open>Formatting\<close>

lemma percent_of_half_number: "formatValue H (Num (Finite (1 / 2))) (Some ''percent'') = Str ''50.0%''"
proof -
  have "toFixed1 H (Finite 50) = ''50.0''"
    by code_simp
  then show ?thesis
    by (simp add: formatValue_def isNaN_def)
qed

lemma parseFloat_half: "parseFloat (Str ''0.5'') = Finite (1 / 2)"
  by code_simp

lemma percent_of_half_text: "formatValue H (Str ''0.5'') (Some ''percent'') = Str ''50.0%''"
proof -
  have "toFixed1 H (Finite 50) = ''50.0''"
    by code_simp
  then show ?thesis
    using parseFloat_half by (simp add: formatValue_def isNaN_def)
qed

text \<open>
  Claim C7 (formatting is non-destructive). \<open>applyFormat\<close> on the selected cell
  creates the record if absent (with empty value and formula), sets its \<open>format\<close> and
  recomputes its \<open>displayValue\<close>; the stored value and formula are what they were, every
  other cell and the grid dimensions are untouched. With format \<^verbatim>\<open>percent\<close>, a value
  \<open>0.5\<close> (as the number or as the text \<^verbatim>\<open>0.5\<close>) is displayed as \<^verbatim>\<open>50.0%\<close>.
\<close>

theorem applyFormat_frame:
  assumes "selectedCell s = Some c"
  shows "map_of (data (applyFormat H t s)) c =
           Some ((case map_of (data s) c of None \<Rightarrow> emptyCell | Some cd \<Rightarrow> cd)
                  \<lparr>format := Some t,
                   displayValue := Some (formatValue H
                     (val (case map_of (data s) c of None \<Rightarrow> emptyCell | Some cd \<Rightarrow> cd)) (Some t))\<rparr>) \<and>
         (\<forall>k. k \<noteq> c \<longrightarrow> map_of (data (applyFormat H t s)) k = map_of (data s) k) \<and>
         map_option val (map_of (data (applyFormat H t s)) c)
           = Some (case map_of (data s) c of None \<Rightarrow> Str [] | Some cd \<Rightarrow> val cd) \<and>
         map_option formula (map_of (data (applyFormat H t s)) c)
           = Some (case map_of (data s) c of None \<Rightarrow> [] | Some cd \<Rightarrow> formula cd) \<and>
         rows (applyFormat H t s) = rows s \<and> cols (applyFormat H t s) = cols s \<and>
         formatValue H (Num (Finite (1 / 2))) (Some ''percent'') = Str ''50.0%'' \<and>
         formatValue H (Str ''0.5'') (Some ''percent'') = Str ''50.0%''"
proof -
  have cell: "map_of (data (applyFormat H t s)) c =
           Some ((case map_of (data s) c of None \<Rightarrow> emptyCell | Some cd \<Rightarrow> cd)
                  \<lparr>format := Some t,
                   displayValue := Some (formatValue H
                     (val (case map_of (data s) c of None \<Rightarrow> emptyCell | Some cd \<Rightarrow> cd)) (Some t))\<rparr>)"
    using assms
    by (simp add: applyFormat_def Let_def map_of_modifyCell map_of_ensureCell split: option.splits)
  have other: "\<forall>k. k \<noteq> c \<longrightarrow> map_of (data (applyFormat H t s)) k = map_of (data s) k"
    using assms
    by (simp add: applyFormat_def Let_def map_of_modifyCell map_of_ensureCell)
  have v: "map_option val (map_of (data (applyFormat H t s)) c)
           = Some (case map_of (data s) c of None \<Rightarrow> Str [] | Some cd \<Rightarrow> val cd)"
    unfolding cell by (simp add: emptyCell_def split: option.splits)
  have f: "map_option formula (map_of (data (applyFormat H t s)) c)
           = Some (case map_of (data s) c of None \<Rightarrow> [] | Some cd \<Rightarrow> formula cd)"
    unfolding cell by (simp add: emptyCell_def split: option.splits)
  have dims: "rows (applyFormat H t s) = rows s \<and> cols (applyFormat H t s) = cols s"
    using assms by (simp add: applyFormat_def Let_def)
  from cell other v f dims percent_of_half_number percent_of_half_text
  show ?thesis by blast
qed

theorem applyFormat_frame_witness:
  "selectedCell \<lparr>rows = 50, cols = 26,
      data = [(''A1'', \<lparr>val = Num (Finite (1 / 2)), formula = ''=1/2'', format = None,
                         displayValue = Some (Num (Finite (1 / 2)))\<rparr>),
              (''B1'', \<lparr>val = Str ''x'', formula = [], format = None,
                         displayValue = Some (Str ''x'')\<rparr>)],
      selectedCell = Some ''A1'', isEditing = False, currentFilePath = None\<rparr> = Some ''A1'' \<and>
   ''B1'' \<noteq> ''A1'' \<and>
   map_of (data (applyFormat exampleHost ''percent''
     \<lparr>rows = 50, cols = 26,
      data = [(''A1'', \<lparr>val = Num (Finite (1 / 2)), formula = ''=1/2'', format = None,
                         displayValue = Some (Num (Finite (1 / 2)))\<rparr>),
              (''B1'', \<lparr>val = Str ''x'', formula = [], format = None,
                         displayValue = Some (Str ''x'')\<rparr>)],
      selectedCell = Some ''A1'', isEditing = False, currentFilePath = None\<rparr>)) ''A1''
     = Some \<lparr>val = Num (Finite (1 / 2)), formula = ''=1/2'', format = Some ''percent'',
             displayValue = Some (Str ''50.0%'')\<rparr> \<and>
   map_of (data (applyFormat exampleHost ''percent''
     \<lparr>rows = 50, cols = 26,
      data = [(''A1'', \<lparr>val = Num (Finite (1 / 2)), formula = ''=1/2'', format = None,
                         displayValue = Some (Num (Finite (1 / 2)))\<rparr>),
              (''B1'', \<lparr>val = Str ''x'', formula = [], format = None,
                         displayValue = Some (Str ''x'')\<rparr>)],
      selectedCell = Some ''A1'', isEditing = False, currentFilePath = None\<rparr>)) ''B1''
     = Some \<lparr>val = Str ''x'', formula = [], format = None, displayValue = Some (Str ''x'')\<rparr>"
proof -
  let ?s = "\<lparr>rows = 50, cols = 26,
      data = [(''A1'', \<lparr>val = Num (Finite (1 / 2)), formula = ''=1/2'', format = None,
                         displayValue = Some (Num (Finite (1 / 2)))\<rparr>),
              (''B1'', \<lparr>val = Str ''x'', formula = [], format = None,
                         displayValue = Some (Str ''x'')\<rparr>)],
      selectedCell = Some ''A1'', isEditing = False, currentFilePath = None\<rparr>"
  have h: "selectedCell ?s = Some ''A1''" by simp
  have ne: "''B1'' \<noteq> ''A1''" by simp
  note inst = applyFormat_frame [OF h, of exampleHost "''percent''"]
  have cell: "map_of (data (applyFormat exampleHost ''percent'' ?s)) ''A1''
     = Some \<lparr>val = Num (Finite (1 / 2)), formula = ''=1/2'', format = Some ''percent'',
             displayValue = Some (Str ''50.0%'')\<rparr>"
    using conjunct1 [OF inst] by (simp add: percent_of_half_number)
  have fr: "\<forall>k. k \<noteq> ''A1'' \<longrightarrow>
          map_of (data (applyFormat exampleHost ''percent'' ?s)) k = map_of (data ?s) k"
    by (rule conjunct1 [OF conjunct2 [OF inst]])
  have "map_of (data (applyFormat exampleHost ''percent'' ?s)) ''B1'' = map_of (data ?s) ''B1''"
    by (rule mp [OF spec [OF fr] ne])
  then have other: "map_of (data (applyFormat exampleHost ''percent'' ?s)) ''B1''
     = Some \<lparr>val = Str ''x'', formula = [], format = None, displayValue = Some (Str ''x'')\<rparr>"
    by simp
  show ?thesis
    using h ne cell other by (intro conjI)
qed

subsection \<open>Loading\<close>

text \<open>
  Claim C6 (snapshot bounds), as stated, fails: a snapshot with \<open>rows = 5000\<close> and
  \<open>cols = -3\<close> is restored as it is, outside \<open>[1, maxRows]\<close> and \<open>[1, maxCols]\<close>.
\<close>

theorem load_dimensions_counterexample:
  "rows (loadFromLocalStorage
           (Parsed \<lparr>snapData = None, snapRows = Some 5000, snapCols = Some (- 3)\<rparr>) initialState) = 5000 \<and>
   \<not> (5000 \<le> maxRows CONFIG) \<and>
   cols (loadFromLocalStorage
           (Parsed \<lparr>snapData = None, snapRows = Some 5000, snapCols = Some (- 3)\<rparr>) initialState) = - 3 \<and>
   \<not> (1 \<le> (- 3 :: int))"
  by (simp add: orDefault_def CONFIG_def)

text \<open>
  Claim C6, amended. Both load operations take the snapshot's row and column counts as
  they are, with no check against the configured bounds; a missing (or zero) count gives
  the default 50 or 26, a missing data mapping gives the empty store, and an item that
  cannot be parsed, or no item or file at all, leaves the state unchanged.
\<close>

theorem load_dimensions_unchecked:
  "rows (loadFromLocalStorage (Parsed snap) s)
     = (case snapRows snap of None \<Rightarrow> 50 | Some n \<Rightarrow> if n = 0 then 50 else n) \<and>
   cols (loadFromLocalStorage (Parsed snap) s)
     = (case snapCols snap of None \<Rightarrow> 26 | Some n \<Rightarrow> if n = 0 then 26 else n) \<and>
   data (loadFromLocalStorage (Parsed snap) s)
     = (case snapData snap of None \<Rightarrow> [] | Some d \<Rightarrow> d) \<and>
   rows (loadFromFilesystem path (Some snap) s)
     = (case snapRows snap of None \<Rightarrow> 50 | Some n \<Rightarrow> if n = 0 then 50 else n) \<and>
   cols (loadFromFilesystem path (Some snap) s)
     = (case snapCols snap of None \<Rightarrow> 26 | Some n \<Rightarrow> if n = 0 then 26 else n) \<and>
   data (loadFromFilesystem path (Some snap) s)
     = (case snapData snap of None \<Rightarrow> [] | Some d \<Rightarrow> d) \<and>
   loadFromLocalStorage Unparsable s = s \<and> loadFromLocalStorage NoItem s = s \<and>
   loadFromFilesystem path None s = s"
  by (simp add: orDefault_def CONFIG_def split: option.splits)

subsection \<open>Range aggregator\<close>

declare colLoop.simps [simp del]
declare rowLoop.simps [simp del]



















subsection \<open>Recalculation keeps formulas\<close>

lemma formula_recalcCell:
  "map_option formula (map_of (recalcCell H d c) k) = map_option formula (map_of d k)"
  by (cases "k = c")
     (simp_all add: map_of_recalcCell_other map_of_recalcCell_same split: option.splits)

lemma formula_recalc_fold:
  "map_option formula (map_of (foldl (recalcCell H) d ks) k) = map_option formula (map_of d k)"
  by (induction ks arbitrary: d) (simp_all add: formula_recalcCell)

lemma map_of_commitEdit_formula:
  assumes "startsWith v ''=''"
  shows "\<exists>cd. map_of (commitEdit H c v d) c = Some cd \<and> formula cd = v \<and>
           val cd = evaluateFormula H
                      (modifyCell c (\<lambda>cd. cd\<lparr>formula := v\<rparr>) (ensureCell c d)) v c \<and>
           displayValue cd = Some (formatValue H (val cd) (format cd))"
proof (cases "map_of d c")
  case None
  with assms show ?thesis
    by (simp add: commitEdit_def Let_def map_of_modifyCell map_of_ensureCell)
next
  case (Some old)
  with assms show ?thesis
    by (simp add: commitEdit_def Let_def map_of_modifyCell map_of_ensureCell)
qed

lemma recalc_fold_constant:
  assumes "\<forall>d'. evaluateFormula H d' (formula cd) c = v"
    and "map_of d c = Some cd" and "formula cd \<noteq> []"
    and "val cd = v" and "displayValue cd = Some (formatValue H v (format cd))"
  shows "map_of (foldl (recalcCell H) d ks) c = Some cd"
  using assms(2)
proof (induction ks arbitrary: d)
  case Nil
  then show ?case by simp
next
  case (Cons k ks)
  have "map_of (recalcCell H d k) c = Some cd"
  proof (cases "k = c")
    case True
    have "cd\<lparr>val := v, displayValue := Some (formatValue H v (format cd))\<rparr> = cd"
      using assms(4,5) by simp
    with True Cons.prems assms(1,3) show ?thesis
      by (simp add: map_of_recalcCell_same)
  next
    case False
    with Cons.prems show ?thesis by (simp add: map_of_recalcCell_other)
  qed
  then show ?case using Cons.IH by simp
qed

subsection \<open>Reference substitution\<close>

lemma numberToString_zero: "numberToString H (Finite 0) = ''0''"
  by code_simp

lemma replaceFrom_skip_all: "length s \<le> k \<Longrightarrow> replaceFrom k m s = []"
proof (induction s arbitrary: k)
  case Nil
  then show ?case by simp
next
  case (Cons ch cs)
  then obtain k' where "k = Suc k'" by (cases k) auto
  with Cons show ?case by simp
qed

lemma matchRef_label:
  assumes "c \<noteq> []" "list_all isUpper c" "r \<noteq> []" "list_all isDigit r"
  shows "matchRef (c @ r) = Some (c, r, [])"
proof -
  have tw: "takeWhile isDigit r = r" and dw: "dropWhile isDigit r = []"
    using assms(4) by (simp_all add: list_all_iff)
  show ?thesis
    unfolding matchRef_def Let_def takeWhile_letters_digits [OF assms(2,3,4)] tw dw
    using assms(1,3) by simp
qed

lemma replaceAll_single_ref:
  assumes "c \<noteq> []" "list_all isUpper c" "r \<noteq> []" "list_all isDigit r"
  shows "replaceAll (refMatcher f) (c @ r) = f c r"
proof -
  from assms(1) obtain ch cs where c: "c = ch # cs" by (cases c) auto
  have "refMatcher f (c @ r) = Some (f c r, length c + length r)"
    by (simp add: refMatcher_def matchRef_label [OF assms])
  then show ?thesis
    unfolding replaceAll_def c by (simp add: replaceFrom_skip_all)
qed

text \<open>
  Claim C4 (reference substitution). In the last replacement pass, the text put in place
  of a reference is \<^verbatim>\<open>0\<close> when the reference is the cell being evaluated, when the
  store has no such cell, and when the cell's value is not numeric (\<open>parseFloat\<close> gives
  NaN, as for the empty string or any text without a leading number); on a text that is
  one label the pass returns just that replacement. So \<^verbatim>\<open>=A1+1\<close> in cell \<^verbatim>\<open>A1\<close>
  becomes \<^verbatim>\<open>0+1\<close> and evaluates to \<open>1\<close> on every store, and committing it as an
  edit of \<^verbatim>\<open>A1\<close> leaves the value \<open>1\<close> in the cell.
\<close>

theorem reference_substitutes_zero:
  "(c @ r = cur \<longrightarrow> cellRefValue H d cur c r = ''0'') \<and>
   (map_of d (c @ r) = None \<longrightarrow> cellRefValue H d cur c r = ''0'') \<and>
   (\<forall>cd. map_of d (c @ r) = Some cd \<and> isNaN (parseFloat (val cd)) \<longrightarrow>
      cellRefValue H d cur c r = ''0'') \<and>
   parseFloat (Str []) = NaN \<and> parseFloat (Str ''abc'') = NaN \<and>
   (c \<noteq> [] \<and> list_all isUpper c \<and> r \<noteq> [] \<and> list_all isDigit r \<longrightarrow>
      replaceAll (refMatcher (cellRefValue H d cur)) (c @ r) = cellRefValue H d cur c r) \<and>
   substituted H d ''=A1+1'' ''A1'' = ''0+1'' \<and>
   evaluateFormula exampleHost d ''=A1+1'' ''A1'' = Num (Finite 1) \<and>
   (isEditing s \<longrightarrow>
      map_option val (map_of (data (finishEditing exampleHost ''A1'' ''=A1+1'' s)) ''A1'')
        = Some (Num (Finite 1)))"
proof -
  have self: "c @ r = cur \<longrightarrow> cellRefValue H d cur c r = ''0''"
    by (simp add: cellRefValue_def numberToString_zero del: numberToString.simps)
  have missing: "map_of d (c @ r) = None \<longrightarrow> cellRefValue H d cur c r = ''0''"
    by (simp add: cellRefValue_def Let_def isNaN_def numberToString_zero del: numberToString.simps)
  have nonnum: "\<forall>cd. map_of d (c @ r) = Some cd \<and> isNaN (parseFloat (val cd)) \<longrightarrow>
      cellRefValue H d cur c r = ''0''"
    by (auto simp: cellRefValue_def Let_def numberToString_zero simp del: numberToString.simps)
  have pf1: "parseFloat (Str []) = NaN" by code_simp
  have pf2: "parseFloat (Str ''abc'') = NaN" by code_simp
  have pass: "c \<noteq> [] \<and> list_all isUpper c \<and> r \<noteq> [] \<and> list_all isDigit r \<longrightarrow>
      replaceAll (refMatcher (cellRefValue H d cur)) (c @ r) = cellRefValue H d cur c r"
    by (simp add: replaceAll_single_ref)
  have subst: "substituted H d ''=A1+1'' ''A1'' = ''0+1''" by code_simp
  have ev: "evaluateFormula exampleHost d' ''=A1+1'' ''A1'' = Num (Finite 1)" for d'
    by code_simp
  have edit: "isEditing s \<longrightarrow>
      map_option val (map_of (data (finishEditing exampleHost ''A1'' ''=A1+1'' s)) ''A1'')
        = Some (Num (Finite 1))"
  proof
    assume ed: "isEditing s"
    have sw: "startsWith ''=A1+1'' ''=''" by (simp add: startsWith_def)
    obtain cd where cd: "map_of (commitEdit exampleHost ''A1'' ''=A1+1'' (data s)) ''A1'' = Some cd"
      and props: "formula cd = ''=A1+1''" "val cd = Num (Finite 1)"
        "displayValue cd = Some (formatValue exampleHost (Num (Finite 1)) (format cd))"
      using map_of_commitEdit_formula [OF sw, of exampleHost "''A1''" "data s"]
      by (auto simp: ev)
    have "map_of (foldl (recalcCell exampleHost) (commitEdit exampleHost ''A1'' ''=A1+1'' (data s)) ks)
            ''A1'' = Some cd" for ks
      by (rule recalc_fold_constant [where v = "Num (Finite 1)"]) (simp_all add: cd props ev)
    then show "map_option val (map_of (data (finishEditing exampleHost ''A1'' ''=A1+1'' s)) ''A1'')
        = Some (Num (Finite 1))"
      using ed props by (simp add: finishEditing_def recalculateAll_def)
  qed
  from self missing nonnum pf1 pf2 pass subst ev edit show ?thesis by blast
qed

theorem reference_substitutes_zero_witness:
  "''A'' @ ''1'' = ''A1'' \<and>
   cellRefValue exampleHost
     [(''C2'', \<lparr>val = Str ''abc'', formula = [], format = None, displayValue = None\<rparr>)]
     ''A1'' ''A'' ''1'' = ''0'' \<and>
   map_of [(''C2'', \<lparr>val = Str ''abc'', formula = [], format = None, displayValue = None\<rparr>)]
     (''B'' @ ''7'') = None \<and>
   cellRefValue exampleHost
     [(''C2'', \<lparr>val = Str ''abc'', formula = [], format = None, displayValue = None\<rparr>)]
     ''A1'' ''B'' ''7'' = ''0'' \<and>
   map_of [(''C2'', \<lparr>val = Str ''abc'', formula = [], format = None, displayValue = None\<rparr>)]
     (''C'' @ ''2'')
     = Some \<lparr>val = Str ''abc'', formula = [], format = None, displayValue = None\<rparr> \<and>
   isNaN (parseFloat (Str ''abc'')) \<and>
   cellRefValue exampleHost
     [(''C2'', \<lparr>val = Str ''abc'', formula = [], format = None, displayValue = None\<rparr>)]
     ''A1'' ''C'' ''2'' = ''0'' \<and>
   isEditing (initialState\<lparr>isEditing := True\<rparr>) \<and>
   map_option val (map_of (data (finishEditing exampleHost ''A1'' ''=A1+1''
       (initialState\<lparr>isEditing := True\<rparr>))) ''A1'') = Some (Num (Finite 1))"
proof -
  let ?d = "[(''C2'', \<lparr>val = Str ''abc'', formula = [], format = None, displayValue = None\<rparr>)]"
  have a: "''A'' @ ''1'' = ''A1''" by simp
  have b: "map_of ?d (''B'' @ ''7'') = None" by simp
  have c: "map_of ?d (''C'' @ ''2'')
             = Some \<lparr>val = Str ''abc'', formula = [], format = None, displayValue = None\<rparr>"
    by simp
  have n: "isNaN (parseFloat (Str ''abc''))" by code_simp
  have e: "isEditing (initialState\<lparr>isEditing := True\<rparr>)" by simp
  have r1: "cellRefValue exampleHost ?d ''A1'' ''A'' ''1'' = ''0''"
    using reference_substitutes_zero [of "''A''" "''1''" "''A1''" exampleHost ?d] a by blast
  have r2: "cellRefValue exampleHost ?d ''A1'' ''B'' ''7'' = ''0''"
    using reference_substitutes_zero [of "''B''" "''7''" "''A1''" exampleHost ?d] b by blast
  have r3: "cellRefValue exampleHost ?d ''A1'' ''C'' ''2'' = ''0''"
    using reference_substitutes_zero [of "''C''" "''2''" "''A1''" exampleHost ?d] c n
    by (metis cell.select_convs(1))
  have r4: "map_option val (map_of (data (finishEditing exampleHost ''A1'' ''=A1+1''
       (initialState\<lparr>isEditing := True\<rparr>))) ''A1'') = Some (Num (Finite 1))"
    using reference_substitutes_zero [of "''A''" "''1''" "''A1''" exampleHost ?d
        "initialState\<lparr>isEditing := True\<rparr>"] e by blast
  from a b c n e r1 r2 r3 r4 show ?thesis by blast
qed

subsection \<open>Evaluation errors\<close>

text \<open>
  Claim C2 (evaluation errors), as stated, fails for a division with a non-finite result:
  \<^verbatim>\<open>=1/0\<close> evaluates to the number \<open>Infinity\<close>, which passes the \<^verbatim>\<open>isNaN\<close> test, and
  not to \<^verbatim>\<open>#ERROR\<close>.
\<close>

theorem division_by_zero_counterexample:
  "evaluateFormula exampleHost [] ''=1/0'' ''A1'' = Num Infinity \<and>
   evaluateFormula exampleHost [] ''=1/0'' ''A1'' \<noteq> Str ''#ERROR''"
proof -
  have "evaluateFormula exampleHost [] ''=1/0'' ''A1'' = Num Infinity" by code_simp
  then show ?thesis by simp
qed

text \<open>
  Claim C2, amended. On every host: when compiling or running the substituted expression
  throws, or its result is NaN, \<open>evaluateFormula\<close> returns the text \<^verbatim>\<open>#ERROR\<close> (it is
  a total function: nothing is thrown); every other result, the infinities included, is
  returned as the number. A parse failure (\<^verbatim>\<open>=1+\<close>) and \<^verbatim>\<open>=0/0\<close> give \<^verbatim>\<open>#ERROR\<close>.
  The committed cell holds the formula text as entered, whatever the result, and a
  recalculation pass changes no cell's formula text.
\<close>

theorem evaluation_errors:
  "(runFunction H (functionBody (substituted H d fm cur)) = None \<longrightarrow>
      evaluateFormula H d fm cur = Str ''#ERROR'') \<and>
   (runFunction H (functionBody (substituted H d fm cur)) = Some NaN \<longrightarrow>
      evaluateFormula H d fm cur = Str ''#ERROR'') \<and>
   (\<forall>v. runFunction H (functionBody (substituted H d fm cur)) = Some v \<and> v \<noteq> NaN \<longrightarrow>
      evaluateFormula H d fm cur = Num v) \<and>
   evaluateFormula exampleHost d ''=1+'' cur = Str ''#ERROR'' \<and>
   evaluateFormula exampleHost d ''=0/0'' cur = Str ''#ERROR'' \<and>
   (isEditing s \<and> startsWith fm ''='' \<longrightarrow>
      map_option formula (map_of (data (finishEditing H cur fm s)) cur) = Some fm) \<and>
   map_option formula (map_of (recalculateAll H d) k) = map_option formula (map_of d k)"
proof -
  have thrown: "runFunction H (functionBody (substituted H d fm cur)) = None \<longrightarrow>
      evaluateFormula H d fm cur = Str ''#ERROR''"
    by (simp add: evaluateFormula_def)
  have nan: "runFunction H (functionBody (substituted H d fm cur)) = Some NaN \<longrightarrow>
      evaluateFormula H d fm cur = Str ''#ERROR''"
    by (simp add: evaluateFormula_def isNaN_def)
  have num: "\<forall>v. runFunction H (functionBody (substituted H d fm cur)) = Some v \<and> v \<noteq> NaN \<longrightarrow>
      evaluateFormula H d fm cur = Num v"
    by (simp add: evaluateFormula_def isNaN_def)
  have parse: "evaluateFormula exampleHost d ''=1+'' cur = Str ''#ERROR''" by code_simp
  have zero: "evaluateFormula exampleHost d ''=0/0'' cur = Str ''#ERROR''" by code_simp
  have kept: "isEditing s \<and> startsWith fm ''='' \<longrightarrow>
      map_option formula (map_of (data (finishEditing H cur fm s)) cur) = Some fm"
    using map_of_commitEdit_formula [of fm H cur "data s"]
    by (auto simp: finishEditing_def recalculateAll_def formula_recalc_fold)
  have pass: "map_option formula (map_of (recalculateAll H d) k) = map_option formula (map_of d k)"
    by (simp add: recalculateAll_def formula_recalc_fold)
  from thrown nan num parse zero kept pass show ?thesis by blast
qed

theorem evaluation_errors_witness:
  "runFunction exampleHost (functionBody (substituted exampleHost [] ''=1+'' ''A1'')) = None \<and>
   evaluateFormula exampleHost [] ''=1+'' ''A1'' = Str ''#ERROR'' \<and>
   runFunction exampleHost (functionBody (substituted exampleHost [] ''=0/0'' ''A1'')) = Some NaN \<and>
   evaluateFormula exampleHost [] ''=0/0'' ''A1'' = Str ''#ERROR'' \<and>
   runFunction exampleHost (functionBody (substituted exampleHost [] ''=-1/0'' ''A1''))
     = Some NegInfinity \<and> NegInfinity \<noteq> NaN \<and>
   evaluateFormula exampleHost [] ''=-1/0'' ''A1'' = Num NegInfinity \<and>
   isEditing (initialState\<lparr>isEditing := True\<rparr>) \<and> startsWith ''=1+'' ''='' \<and>
   map_of (data (finishEditing exampleHost ''A1'' ''=1+'' (initialState\<lparr>isEditing := True\<rparr>))) ''A1''
     = Some \<lparr>val = Str ''#ERROR'', formula = ''=1+'', format = None,
             displayValue = Some (Str ''#ERROR'')\<rparr>"
proof -
  have a: "runFunction exampleHost (functionBody (substituted exampleHost [] ''=1+'' ''A1'')) = None"
    by code_simp
  have a2: "runFunction exampleHost (functionBody (substituted exampleHost [] ''=0/0'' ''A1'')) = Some NaN"
    by code_simp
  have a3: "runFunction exampleHost (functionBody (substituted exampleHost [] ''=-1/0'' ''A1''))
              = Some NegInfinity"
    by code_simp
  have b: "isEditing (initialState\<lparr>isEditing := True\<rparr>)" by simp
  have c: "startsWith ''=1+'' ''=''" by (simp add: startsWith_def)
  have d: "map_of (data (finishEditing exampleHost ''A1'' ''=1+'' (initialState\<lparr>isEditing := True\<rparr>))) ''A1''
     = Some \<lparr>val = Str ''#ERROR'', formula = ''=1+'', format = None,
             displayValue = Some (Str ''#ERROR'')\<rparr>"
    by code_simp
  have e1: "evaluateFormula exampleHost [] ''=1+'' ''A1'' = Str ''#ERROR''"
    using evaluation_errors [of exampleHost "[]" "''=1+''" "''A1''"] a by blast
  have e2: "evaluateFormula exampleHost [] ''=0/0'' ''A1'' = Str ''#ERROR''"
    using evaluation_errors [of exampleHost "[]" "''=0/0''" "''A1''"] a2 by blast
  have e3: "evaluateFormula exampleHost [] ''=-1/0'' ''A1'' = Num NegInfinity"
    using evaluation_errors [of exampleHost "[]" "''=-1/0''" "''A1''"] a3 by blast
  have kept: "map_option formula (map_of (data (finishEditing exampleHost ''A1'' ''=1+''
                (initialState\<lparr>isEditing := True\<rparr>))) ''A1'') = Some ''=1+''"
    using evaluation_errors [of exampleHost "[]" "''=1+''" "''A1''"
         "initialState\<lparr>isEditing := True\<rparr>"] b c by blast
  from a a2 a3 b c d e1 e2 e3 kept show ?thesis by simp
qed

subsection \<open>The recalculation pass\<close>

lemma update_at_index:
  "distinct (map fst d) \<Longrightarrow> i < length d \<Longrightarrow>
   AList.update (fst (d ! i)) v d = d[i := (fst (d ! i), v)]"
proof (induction d arbitrary: i)
  case Nil
  then show ?case by simp
next
  case (Cons p ps)
  show ?case
  proof (cases i)
    case 0
    then show ?thesis by (cases p) simp
  next
    case (Suc j)
    with Cons.prems have j: "j < length ps" and "distinct (map fst ps)" by simp_all
    have "fst (ps ! j) \<in> set (map fst ps)" using j by (metis nth_map nth_mem length_map)
    moreover have "fst p \<notin> set (map fst ps)" using Cons.prems(1) by simp
    ultimately have "fst p \<noteq> fst (ps ! j)" by metis
    with Cons.IH [OF \<open>distinct (map fst ps)\<close> j] Suc show ?thesis
      by (cases p) simp
  qed
qed

lemma map_of_at_index:
  "distinct (map fst d) \<Longrightarrow> i < length d \<Longrightarrow> map_of d (fst (d ! i)) = Some (snd (d ! i))"
  by (rule map_of_is_SomeI) simp_all

lemma recalcCell_at_index:
  assumes "distinct (map fst d)" "i < length d"
  shows "recalcCell H d (fst (d ! i)) = d[i := (fst (d ! i), refreshed H d (fst (d ! i)) (snd (d ! i)))]"
proof (cases "formula (snd (d ! i)) = []")
  case True
  then show ?thesis
    by (simp add: recalcCell_def map_of_at_index [OF assms] refreshed_def)
next
  case False
  then show ?thesis
    by (simp add: recalcCell_def map_of_at_index [OF assms] refreshed_def Let_def
          update_at_index [OF assms])
qed

lemma keys_afterVisits: "map fst (afterVisits H d i) = map fst d"
  by (simp add: afterVisits_def keys_recalc_fold)

lemma afterVisits_Suc:
  assumes "i < length d"
  shows "afterVisits H d (Suc i) = recalcCell H (afterVisits H d i) (fst (d ! i))"
  using assms by (simp add: afterVisits_def take_Suc_conv_app_nth)

lemma afterVisits_all: "afterVisits H d (length d) = recalculateAll H d"
  by (simp add: afterVisits_def recalculateAll_def)

lemma length_afterVisits: "length (afterVisits H d i) = length d"
  using keys_afterVisits [of H d i] by (metis length_map)

lemma afterVisits_nth:
  assumes "distinct (map fst d)"
  shows "i \<le> length d \<Longrightarrow> j < length d \<Longrightarrow>
         afterVisits H d i ! j =
           (if j < i then (fst (d ! j), refreshed H (afterVisits H d j) (fst (d ! j)) (snd (d ! j)))
            else d ! j)"
proof (induction i arbitrary: j)
  case 0
  then show ?case by (simp add: afterVisits_def)
next
  case (Suc i)
  then have i: "i < length d" by simp
  let ?p = "afterVisits H d i"
  have dist: "distinct (map fst ?p)" using assms by (simp add: keys_afterVisits)
  have len: "i < length ?p" using i by (simp add: length_afterVisits)
  have at_i: "?p ! i = d ! i" using Suc.IH [of i] i by simp
  have step: "afterVisits H d (Suc i)
                = ?p[i := (fst (d ! i), refreshed H ?p (fst (d ! i)) (snd (d ! i)))]"
    using recalcCell_at_index [OF dist len, of H] by (simp add: afterVisits_Suc [OF i] at_i)
  show ?case
  proof (cases "j = i")
    case True
    with step len show ?thesis by simp
  next
    case False
    with step Suc.IH [of j] Suc.prems show ?thesis by (auto simp: less_Suc_eq)
  qed
qed

text \<open>
  Claim C5 (single-pass recalculation). A committed edit runs \<open>recalculateAll\<close> once.
  The pass keeps the keys and their order and visits them in that order, one step of
  \<open>recalcCell\<close> per key: the record at position \<open>i\<close> ends as \<open>refreshed\<close> on the store
  the pass has reached after \<open>i\<close> visits, that is, a formula cell gets one evaluation of
  its formula (its value and display value) and any other cell is unchanged. In that
  store the cells before \<open>i\<close> hold their new records and the cells from \<open>i\<close> on still
  hold their records from before the pass. The pass is not iterated: with \<^verbatim>\<open>A1 = B1+1\<close>
  entered before \<^verbatim>\<open>B1 = C1+1\<close>, the edit \<^verbatim>\<open>C1 = 5\<close> leaves \<^verbatim>\<open>B1 = 6\<close> and
  \<^verbatim>\<open>A1 = 2\<close>, computed from the previous value \<open>1\<close> of \<^verbatim>\<open>B1\<close>; a second pass would
  give \<^verbatim>\<open>A1 = 7\<close>.
\<close>

theorem single_pass_recalculation:
  assumes "distinct (map fst d)"
  shows "map fst (recalculateAll H d) = map fst d \<and>
    (\<forall>i<length d. recalculateAll H d ! i
        = (fst (d ! i), refreshed H (afterVisits H d i) (fst (d ! i)) (snd (d ! i)))) \<and>
    (\<forall>i j. i \<le> j \<and> j < length d \<longrightarrow> afterVisits H d i ! j = d ! j) \<and>
    (\<forall>i j. j < i \<and> i \<le> length d \<longrightarrow> afterVisits H d i ! j = recalculateAll H d ! j) \<and>
    afterVisits H d 0 = d \<and> afterVisits H d (length d) = recalculateAll H d \<and>
    (\<forall>i<length d. afterVisits H d (Suc i) = recalcCell H (afterVisits H d i) (fst (d ! i))) \<and>
    (isEditing s \<longrightarrow>
       finishEditing H c v s
         = s\<lparr>isEditing := False, data := recalculateAll H (commitEdit H c v (data s))\<rparr>) \<and>
    vals (data (editCell exampleHost ''B1'' ''=C1+1''
            (editCell exampleHost ''A1'' ''=B1+1'' initialState)))
      = [(''A1'', Num (Finite 2)), (''B1'', Num (Finite 1))] \<and>
    vals (data (editCell exampleHost ''C1'' ''5''
            (editCell exampleHost ''B1'' ''=C1+1''
              (editCell exampleHost ''A1'' ''=B1+1'' initialState))))
      = [(''A1'', Num (Finite 2)), (''B1'', Num (Finite 6)), (''C1'', Str ''5'')] \<and>
    vals (recalculateAll exampleHost
            (data (editCell exampleHost ''C1'' ''5''
              (editCell exampleHost ''B1'' ''=C1+1''
                (editCell exampleHost ''A1'' ''=B1+1'' initialState)))))
      = [(''A1'', Num (Finite 7)), (''B1'', Num (Finite 6)), (''C1'', Str ''5'')]"
proof -
  have keys: "map fst (recalculateAll H d) = map fst d"
    by (simp add: recalculateAll_def keys_recalc_fold)
  have final: "\<forall>i<length d. recalculateAll H d ! i
        = (fst (d ! i), refreshed H (afterVisits H d i) (fst (d ! i)) (snd (d ! i)))"
    using afterVisits_nth [OF assms, of "length d" _ H] by (simp add: afterVisits_all)
  have later: "\<forall>i j. i \<le> j \<and> j < length d \<longrightarrow> afterVisits H d i ! j = d ! j"
    using afterVisits_nth [OF assms, of _ _ H] by simp
  have earlier: "\<forall>i j. j < i \<and> i \<le> length d \<longrightarrow> afterVisits H d i ! j = recalculateAll H d ! j"
  proof (intro allI impI)
    fix i j
    assume ij: "j < i \<and> i \<le> length d"
    then have "j < length d" by simp
    with ij final afterVisits_nth [OF assms, of i j H] show "afterVisits H d i ! j = recalculateAll H d ! j"
      by simp
  qed
  have start: "afterVisits H d 0 = d" by (simp add: afterVisits_def)
  have stop: "afterVisits H d (length d) = recalculateAll H d" by (rule afterVisits_all)
  have step: "\<forall>i<length d. afterVisits H d (Suc i) = recalcCell H (afterVisits H d i) (fst (d ! i))"
    by (simp add: afterVisits_Suc)
  have edit: "isEditing s \<longrightarrow>
       finishEditing H c v s
         = s\<lparr>isEditing := False, data := recalculateAll H (commitEdit H c v (data s))\<rparr>"
    by (simp add: finishEditing_def)
  have ex2: "vals (data (editCell exampleHost ''B1'' ''=C1+1''
            (editCell exampleHost ''A1'' ''=B1+1'' initialState)))
      = [(''A1'', Num (Finite 2)), (''B1'', Num (Finite 1))]"
    by code_simp
  have ex3: "vals (data (editCell exampleHost ''C1'' ''5''
            (editCell exampleHost ''B1'' ''=C1+1''
              (editCell exampleHost ''A1'' ''=B1+1'' initialState))))
      = [(''A1'', Num (Finite 2)), (''B1'', Num (Finite 6)), (''C1'', Str ''5'')]"
    by code_simp
  have ex4: "vals (recalculateAll exampleHost
            (data (editCell exampleHost ''C1'' ''5''
              (editCell exampleHost ''B1'' ''=C1+1''
                (editCell exampleHost ''A1'' ''=B1+1'' initialState)))))
      = [(''A1'', Num (Finite 7)), (''B1'', Num (Finite 6)), (''C1'', Str ''5'')]"
    by code_simp
  from keys final later earlier start stop step edit ex2 ex3 ex4 show ?thesis by blast
qed

theorem single_pass_recalculation_witness:
  "distinct (map fst
     [(''A1'', \<lparr>val = Num (Finite 2), formula = ''=B1+1'', format = None, displayValue = None\<rparr>),
      (''B1'', \<lparr>val = Str ''5'', formula = [], format = None, displayValue = None\<rparr>)]) \<and>
   recalculateAll exampleHost
     [(''A1'', \<lparr>val = Num (Finite 2), formula = ''=B1+1'', format = None, displayValue = None\<rparr>),
      (''B1'', \<lparr>val = Str ''5'', formula = [], format = None, displayValue = None\<rparr>)] ! 0
     = (''A1'', \<lparr>val = Num (Finite 6), formula = ''=B1+1'', format = None,
                  displayValue = Some (Num (Finite 6))\<rparr>) \<and>
   recalculateAll exampleHost
     [(''A1'', \<lparr>val = Num (Finite 2), formula = ''=B1+1'', format = None, displayValue = None\<rparr>),
      (''B1'', \<lparr>val = Str ''5'', formula = [], format = None, displayValue = None\<rparr>)] ! 1
     = (''B1'', \<lparr>val = Str ''5'', formula = [], format = None, displayValue = None\<rparr>)"
proof -
  let ?d = "[(''A1'', \<lparr>val = Num (Finite 2), formula = ''=B1+1'', format = None, displayValue = None\<rparr>),
      (''B1'', \<lparr>val = Str ''5'', formula = [], format = None, displayValue = None\<rparr>)]"
  have h: "distinct (map fst ?d)" by simp
  have v0: "afterVisits exampleHost ?d 0 = ?d" by (simp add: afterVisits_def)
  have r0: "refreshed exampleHost ?d ''A1''
              \<lparr>val = Num (Finite 2), formula = ''=B1+1'', format = None, displayValue = None\<rparr>
            = \<lparr>val = Num (Finite 6), formula = ''=B1+1'', format = None,
                 displayValue = Some (Num (Finite 6))\<rparr>"
    by code_simp
  have r1: "refreshed exampleHost dd ''B1''
              \<lparr>val = Str ''5'', formula = [], format = None, displayValue = None\<rparr>
            = \<lparr>val = Str ''5'', formula = [], format = None, displayValue = None\<rparr>" for dd
    by (simp add: refreshed_def)
  note inst = single_pass_recalculation [OF h, of exampleHost]
  have a: "recalculateAll exampleHost ?d ! 0
             = (fst (?d ! 0), refreshed exampleHost (afterVisits exampleHost ?d 0) (fst (?d ! 0)) (snd (?d ! 0)))"
    using inst by simp
  have b: "recalculateAll exampleHost ?d ! 1
             = (fst (?d ! 1), refreshed exampleHost (afterVisits exampleHost ?d 1) (fst (?d ! 1)) (snd (?d ! 1)))"
    using inst by simp
  from h a b show ?thesis by (simp add: v0 r0 r1)
qed

end
